theory Spec2Isabelle
  imports Main "HOL-Library.Char_ord" "HOL-Library.List_Lexorder"
begin

section \<open>Go values used by the form-data middleware\<close>

text \<open>
  The functions of \<open>formdata.go\<close> are embedded one by one: \<open>ServeHTTP\<close>,
  \<open>handleURLEncoded\<close>, \<open>handleMultipart\<close>, \<open>applyOpsToValues\<close>,
  \<open>writeValues\<close> and \<open>writeFiles\<close>. What they call in Go's standard library is
  either written out after the library (\<open>url.Values\<close>, \<open>url.QueryEscape\<close>,
  \<open>http.Error\<close>, \<open>multipart.Writer\<close>, the readers) or, for the two form parsers,
  the random boundary and the visiting order of maps, taken as an argument, so that
  every theorem holds for whatever they deliver.
\<close>

text \<open>
  A Go \<open>string\<close> is a sequence of bytes, here a \<open>char list\<close>. A Go \<open>error\<close> is a
  value carrying its message, the text that \<open>err.Error()\<close> returns.
\<close>

datatype go_error = Err (Error: string)

text \<open>
  A Go map is a partial function. A \<open>for k, v := range m\<close> loop visits every entry
  once, in an order the language leaves open. Each loop of the source therefore takes
  the order of its visit as an extra argument \<open>ks\<close>; \<open>iteration_order ks m\<close> says that
  \<open>ks\<close> is one of the orders Go may choose for \<open>m\<close>.
\<close>

definition iteration_order :: "'k list \<Rightarrow> ('k \<rightharpoonup> 'v) \<Rightarrow> bool" where
  "iteration_order ks m \<longleftrightarrow> distinct ks \<and> set ks = dom m"

definition range_map :: "'k list \<Rightarrow> ('k \<rightharpoonup> 'v) \<Rightarrow> ('k \<times> 'v) list" where
  "range_map ks m = List.map_filter (\<lambda>k. map_option (Pair k) (m k)) ks"

text \<open>
  \<open>url.Values\<close> and the \<open>Value\<close> field of \<open>multipart.Form\<close> are both
  \<open>map[string][]string\<close>. Reading a missing key yields the nil slice, which
  \<open>append\<close> treats as the empty one.
\<close>

type_synonym Values = "string \<rightharpoonup> string list"

definition index_map :: "Values \<Rightarrow> string \<Rightarrow> string list" where
  "index_map values k = (case values k of None \<Rightarrow> [] | Some vs \<Rightarrow> vs)"

text \<open>The three \<open>net/url\<close> methods that \<open>handleURLEncoded\<close> calls on \<open>req.PostForm\<close>.\<close>

definition Values_Del :: "Values \<Rightarrow> string \<Rightarrow> Values" where
  "Values_Del v key = v(key := None)"

definition Values_Set :: "Values \<Rightarrow> string \<Rightarrow> string \<Rightarrow> Values" where
  "Values_Set v key val = v(key \<mapsto> [val])"

definition Values_Add :: "Values \<Rightarrow> string \<Rightarrow> string \<Rightarrow> Values" where
  "Values_Add v key val = v(key \<mapsto> index_map v key @ [val])"

section \<open>The plugin and its mutation pass\<close>

text \<open>
  The \<open>Formdata\<close> struct. The fields \<open>set\<close> and \<open>delete\<close> carry a suffix because
  both names are taken in HOL; \<open>next\<close> is passed to \<open>ServeHTTP\<close> as an argument.
\<close>

record Formdata =
  set_fd :: "string \<rightharpoonup> string"
  appendTo :: "string \<rightharpoonup> string"
  delete_fd :: "string list"
  name :: string

text \<open>
  \<open>applyOpsToValues\<close> (multipart path): three loops in sequence over the map that the
  caller passed by reference. \<open>os\<close> and \<open>oa\<close> are the visiting orders of the two
  \<open>range\<close> loops.
\<close>

definition applyOpsToValues :: "Formdata \<Rightarrow> string list \<Rightarrow> string list \<Rightarrow> Values \<Rightarrow> Values" where
  "applyOpsToValues a os oa values =
     (let values = fold (\<lambda>k values. values(k := None)) (delete_fd a) values;
          values = fold (\<lambda>(k, v) values. values(k \<mapsto> [v])) (range_map os (set_fd a)) values;
          values = fold (\<lambda>(k, v) values. values(k \<mapsto> index_map values k @ [v]))
                        (range_map oa (appendTo a)) values
      in values)"

text \<open>
  Lines 77 to 85 of \<open>handleURLEncoded\<close>: the same three loops, written there
  through the methods of \<open>url.Values\<close> on \<open>form := req.PostForm\<close>.
\<close>

definition mutateForm :: "Formdata \<Rightarrow> string list \<Rightarrow> string list \<Rightarrow> Values \<Rightarrow> Values" where
  "mutateForm a os oa form =
     (let form = fold (\<lambda>k form. Values_Del form k) (delete_fd a) form;
          form = fold (\<lambda>(k, v) form. Values_Set form k v) (range_map os (set_fd a)) form;
          form = fold (\<lambda>(k, v) form. Values_Add form k v) (range_map oa (appendTo a)) form
      in form)"

section \<open>Requests, responses and readers\<close>

text \<open>
  A reader over a byte sequence: the sequence and the offset of the next unread byte.
  \<open>strings.NewReader\<close> and \<open>bytes.NewReader\<close> start at offset 0; \<open>io.NopCloser\<close>
  only adds a \<open>Close\<close> that does nothing; \<open>io.ReadAll\<close> delivers what is left.
\<close>

record Reader =
  src :: string
  off :: nat

definition NewReader :: "string \<Rightarrow> Reader" where
  "NewReader s = \<lparr>src = s, off = 0\<rparr>"

definition NopCloser :: "Reader \<Rightarrow> Reader" where
  "NopCloser r = r"

definition ReadAll :: "Reader \<Rightarrow> string" where
  "ReadAll r = drop (off r) (src r)"

text \<open>
  An uploaded file as \<open>fh.Open()\<close> and a read to the end present it: the bytes
  delivered, then end of file or a read error. Whether the header is backed by memory or
  by a temporary file is the parser's business, so the outcome of \<open>Open\<close> is a field.
\<close>

datatype OpenFile = OpenFile (data: string) (read_err: "go_error option")

record FileHeader =
  Filename :: string
  Open :: "go_error + OpenFile"

record Form =
  Value :: Values
  File :: "string \<rightharpoonup> FileHeader list"

text \<open>
  The fields of \<open>http.Request\<close> that the plugin reads or assigns. \<open>ParseForm\<close>
  always leaves \<open>PostForm\<close> non-nil, so the nil map and the empty map are one value
  here; \<open>MultipartForm\<close> keeps its nil, which the source tests.
\<close>

record Request =
  Header :: "string \<rightharpoonup> string list"
  Body :: Reader
  ContentLength :: int
  GetBody :: "(unit \<Rightarrow> Reader \<times> go_error option) option"
  PostForm :: Values
  MultipartForm :: "Form option"

text \<open>
  \<open>Header.Get\<close> and \<open>Header.Set\<close>. Both canonicalise the key first; the only key
  the plugin uses, \<open>Content-Type\<close>, is already canonical.
\<close>

definition Header_Get :: "(string \<rightharpoonup> string list) \<Rightarrow> string \<Rightarrow> string" where
  "Header_Get h key = (case h key of None \<Rightarrow> [] | Some [] \<Rightarrow> [] | Some (v # _) \<Rightarrow> v)"

definition Header_Set :: "(string \<rightharpoonup> string list) \<Rightarrow> string \<Rightarrow> string \<Rightarrow> (string \<rightharpoonup> string list)" where
  "Header_Set h key val = h(key \<mapsto> [val])"

definition HasPrefix :: "string \<Rightarrow> string \<Rightarrow> bool" where
  "HasPrefix s pre \<longleftrightarrow> length s \<ge> length pre \<and> take (length pre) s = pre"

text \<open>
  The response writer records what was sent: the header map, the status code once
  \<open>WriteHeader\<close> has run (a second call changes nothing), and the body bytes.
  \<open>http.Error\<close> sets its three headers, writes the status and prints the message
  with a newline.
\<close>

record ResponseWriter =
  rw_Header :: "string \<rightharpoonup> string list"
  rw_Code :: "nat option"
  rw_Body :: string

definition WriteHeader :: "ResponseWriter \<Rightarrow> nat \<Rightarrow> ResponseWriter" where
  "WriteHeader w code = (if rw_Code w = None then w\<lparr>rw_Code := Some code\<rparr> else w)"

definition rw_Write :: "ResponseWriter \<Rightarrow> string \<Rightarrow> ResponseWriter" where
  "rw_Write w bs = (let w = WriteHeader w 200 in w\<lparr>rw_Body := rw_Body w @ bs\<rparr>)"

definition http_Error :: "ResponseWriter \<Rightarrow> string \<Rightarrow> nat \<Rightarrow> ResponseWriter" where
  "http_Error w error code =
     (let h = rw_Header w;
          h = h(''Content-Length'' := None);
          h = Header_Set h ''Content-Type'' ''text/plain; charset=utf-8'';
          h = Header_Set h ''X-Content-Type-Options'' ''nosniff'';
          w = w\<lparr>rw_Header := h\<rparr>;
          w = WriteHeader w code
      in rw_Write w (error @ [CHR 0x0A]))"

definition StatusBadRequest :: nat where
  "StatusBadRequest = 400"

definition StatusInternalServerError :: nat where
  "StatusInternalServerError = 500"

text \<open>
  What the Go runtime and the standard library decide for one request: the two form
  parsers of \<open>net/http\<close> (each returns its error and the request as it leaves it), the
  boundary that \<open>multipart.NewWriter\<close> draws at random, and the visiting order of every
  \<open>range\<close> loop over a map.
\<close>

record Env =
  ParseForm :: "Request \<Rightarrow> go_error option \<times> Request"
  ParseMultipartForm :: "int \<Rightarrow> Request \<Rightarrow> go_error option \<times> Request"
  randomBoundary :: string
  order_set :: "string list"
  order_append :: "string list"
  order_encode :: "string list"
  order_values :: "string list"
  order_files :: "string list"

section \<open>The URL-encoded path\<close>

text \<open>
  \<open>url.QueryEscape\<close>: letters, digits and \<open>- _ . ~\<close> stay, a space becomes \<open>+\<close>,
  every other byte becomes \<open>%\<close> and two upper-case hex digits.
\<close>

definition shouldEscape :: "char \<Rightarrow> bool" where
  "shouldEscape c =
     (if c \<in> {CHR ''a''..CHR ''z''} \<union> {CHR ''A''..CHR ''Z''} \<union> {CHR ''0''..CHR ''9''} then False
      else if c \<in> {CHR ''-'', CHR ''_'', CHR ''.'', CHR ''~''} then False
      else True)"

definition upperhex :: "nat \<Rightarrow> char" where
  "upperhex n = ''0123456789ABCDEF'' ! n"

definition escape_byte :: "char \<Rightarrow> string" where
  "escape_byte c =
     (if shouldEscape c then
        (if c = CHR '' '' then ''+''
         else [CHR ''%'', upperhex ((of_char c :: nat) div 16), upperhex ((of_char c :: nat) mod 16)])
      else [c])"

definition QueryEscape :: "string \<Rightarrow> string" where
  "QueryEscape s = concat (map escape_byte s)"

text \<open>
  \<open>Values.Encode\<close>: collect the keys (in the map's visiting order \<open>ks\<close>), sort them,
  and write \<open>key=value\<close> for every value of every key, with \<open>&\<close> before each pair
  but the first.
\<close>

definition Values_Encode :: "string list \<Rightarrow> Values \<Rightarrow> string" where
  "Values_Encode ks v =
     (if length ks = 0 then []
      else fold (\<lambda>k buf.
              let vs = index_map v k; keyEscaped = QueryEscape k
              in fold (\<lambda>v buf. (if length buf > 0 then buf @ ''&'' else buf)
                                 @ keyEscaped @ ''='' @ QueryEscape v) vs buf)
            (sort ks) [])"

text \<open>
  \<open>handleURLEncoded\<close>. \<open>form\<close> is the map \<open>req.PostForm\<close> itself, so the loops
  change the request's \<open>PostForm\<close>. The result is the response writer and the request
  as the function leaves them.
\<close>

definition handleURLEncoded :: "Env \<Rightarrow> Formdata \<Rightarrow> ResponseWriter \<Rightarrow> Request \<Rightarrow> ResponseWriter \<times> Request" where
  "handleURLEncoded env a rw req =
     (case ParseForm env req of
        (Some err, req) \<Rightarrow> (http_Error rw (Error err) StatusBadRequest, req)
      | (None, req) \<Rightarrow>
          let form = mutateForm a (order_set env) (order_append env) (PostForm req);
              req = req\<lparr>PostForm := form\<rparr>;
              encoded = Values_Encode (order_encode env) form
          in (rw, req\<lparr>Body := NopCloser (NewReader encoded),
                       ContentLength := int (length encoded),
                       GetBody := Some (\<lambda>_. (NopCloser (NewReader encoded), None))\<rparr>))"

section \<open>The multipart path\<close>

text \<open>
  \<open>multipart.Writer\<close> over the \<open>bytes.Buffer\<close> of \<open>handleMultipart\<close>: the bytes
  written so far, the boundary, and whether a part has been started. Writes into a
  \<open>bytes.Buffer\<close> do not fail, so the operations always return \<open>Inr\<close>; they keep
  the error in their type because the source tests it after every call.
\<close>

record Writer =
  buf :: string
  boundary :: string
  lastpart :: bool

definition CRLF :: string where
  "CRLF = [CHR 0x0D, CHR 0x0A]"

definition NewWriter :: "string \<Rightarrow> Writer" where
  "NewWriter b = \<lparr>buf = [], boundary = b, lastpart = False\<rparr>"

definition header_lines :: "(string \<times> string) list \<Rightarrow> string" where
  "header_lines header = concat (map (\<lambda>(k, v). k @ '': '' @ v @ CRLF) (sort_key fst header))"

definition CreatePart :: "Writer \<Rightarrow> (string \<times> string) list \<Rightarrow> go_error + Writer" where
  "CreatePart w header =
     Inr (w\<lparr>buf := buf w
                 @ (if lastpart w then CRLF @ ''--'' @ boundary w @ CRLF
                    else ''--'' @ boundary w @ CRLF)
                 @ header_lines header @ CRLF,
             lastpart := True\<rparr>)"

text \<open>
  \<open>escapeQuotes\<close>, the writer's quoting of a field name or file name: a backslash
  and a double quote get a backslash in front, a carriage return becomes \<open>%0D\<close> and
  a line feed \<open>%0A\<close>; every other byte stays.
\<close>

definition escapeQuotes :: "string \<Rightarrow> string" where
  "escapeQuotes s =
     concat (map (\<lambda>c. if c = CHR 0x5C then [CHR 0x5C, CHR 0x5C]
                       else if c = CHR 0x22 then [CHR 0x5C, CHR 0x22]
                       else if c = CHR 0x0D then ''%0D''
                       else if c = CHR 0x0A then ''%0A''
                       else [c]) s)"

definition field_header :: "string \<Rightarrow> (string \<times> string) list" where
  "field_header fieldname =
     [(''Content-Disposition'',
       ''form-data; name='' @ [CHR 0x22] @ escapeQuotes fieldname @ [CHR 0x22])]"

definition file_header :: "string \<Rightarrow> string \<Rightarrow> (string \<times> string) list" where
  "file_header fieldname filename =
     [(''Content-Disposition'',
       ''form-data; name='' @ [CHR 0x22] @ escapeQuotes fieldname @ [CHR 0x22]
       @ ''; filename='' @ [CHR 0x22] @ escapeQuotes filename @ [CHR 0x22]),
      (''Content-Type'', ''application/octet-stream'')]"

definition CreateFormField :: "Writer \<Rightarrow> string \<Rightarrow> go_error + Writer" where
  "CreateFormField w fieldname = CreatePart w (field_header fieldname)"

definition CreateFormFile :: "Writer \<Rightarrow> string \<Rightarrow> string \<Rightarrow> go_error + Writer" where
  "CreateFormFile w fieldname filename = CreatePart w (file_header fieldname filename)"

definition part_Write :: "Writer \<Rightarrow> string \<Rightarrow> go_error + Writer" where
  "part_Write w bs = Inr (w\<lparr>buf := buf w @ bs\<rparr>)"

definition WriteField :: "Writer \<Rightarrow> string \<Rightarrow> string \<Rightarrow> go_error + Writer" where
  "WriteField w fieldname val =
     (case CreateFormField w fieldname of
        Inl err \<Rightarrow> Inl err
      | Inr p \<Rightarrow> part_Write p val)"

definition Close :: "Writer \<Rightarrow> go_error + Writer" where
  "Close w = Inr (w\<lparr>buf := buf w @ CRLF @ ''--'' @ boundary w @ ''--'' @ CRLF,
                     lastpart := False\<rparr>)"

text \<open>
  \<open>io.Copy(part, f)\<close>: everything the file delivers goes to the part; a read error
  ends the copy after the bytes that came before it.
\<close>

definition io_Copy :: "Writer \<Rightarrow> OpenFile \<Rightarrow> go_error + Writer" where
  "io_Copy part f =
     (case part_Write part (data f) of
        Inl err \<Rightarrow> Inl err
      | Inr part \<Rightarrow> (case read_err f of Some err \<Rightarrow> Inl err | None \<Rightarrow> Inr part))"

text \<open>\<open>writeValues\<close>: the inner loop over one key's values, then the loop over the map.\<close>

fun writeValues_vals :: "Writer \<Rightarrow> string \<Rightarrow> string list \<Rightarrow> go_error + Writer" where
  "writeValues_vals w k [] = Inr w"
| "writeValues_vals w k (v # vals) =
     (case WriteField w k v of
        Inl err \<Rightarrow> Inl err
      | Inr w \<Rightarrow> writeValues_vals w k vals)"

fun writeValues_loop :: "Writer \<Rightarrow> (string \<times> string list) list \<Rightarrow> go_error + Writer" where
  "writeValues_loop w [] = Inr w"
| "writeValues_loop w ((k, vals) # rest) =
     (case writeValues_vals w k vals of
        Inl err \<Rightarrow> Inl err
      | Inr w \<Rightarrow> writeValues_loop w rest)"

definition writeValues :: "string list \<Rightarrow> Writer \<Rightarrow> Values \<Rightarrow> go_error + Writer" where
  "writeValues ks w values = writeValues_loop w (range_map ks values)"

text \<open>
  \<open>writeFiles\<close>: for every header open the file, start a file part under the field
  name and the header's file name, copy the content. Each error returns at once. The
  source also closes the file on every path, which changes none of the values here.
\<close>

fun writeFiles_fhs :: "Writer \<Rightarrow> string \<Rightarrow> FileHeader list \<Rightarrow> go_error + Writer" where
  "writeFiles_fhs w field [] = Inr w"
| "writeFiles_fhs w field (fh # fhs) =
     (case Open fh of
        Inl err \<Rightarrow> Inl err
      | Inr f \<Rightarrow>
          (case CreateFormFile w field (Filename fh) of
             Inl err \<Rightarrow> Inl err
           | Inr part \<Rightarrow>
               (case io_Copy part f of
                  Inl err \<Rightarrow> Inl err
                | Inr w \<Rightarrow> writeFiles_fhs w field fhs)))"

fun writeFiles_loop :: "Writer \<Rightarrow> (string \<times> FileHeader list) list \<Rightarrow> go_error + Writer" where
  "writeFiles_loop w [] = Inr w"
| "writeFiles_loop w ((field, fhs) # rest) =
     (case writeFiles_fhs w field fhs of
        Inl err \<Rightarrow> Inl err
      | Inr w \<Rightarrow> writeFiles_loop w rest)"

definition writeFiles :: "string list \<Rightarrow> Writer \<Rightarrow> (string \<rightharpoonup> FileHeader list) \<Rightarrow> go_error + Writer" where
  "writeFiles ks w files = writeFiles_loop w (range_map ks files)"

text \<open>
  \<open>handleMultipart\<close>. \<open>m\<close> points to \<open>req.MultipartForm\<close> and \<open>m.Value\<close> is a
  map, so \<open>applyOpsToValues\<close> changes the form that the request holds: the request
  carries the new \<open>Value\<close> from that line on, also on the error returns below it.
\<close>

definition handleMultipart :: "Env \<Rightarrow> Formdata \<Rightarrow> ResponseWriter \<Rightarrow> Request \<Rightarrow> ResponseWriter \<times> Request" where
  "handleMultipart env a rw req =
     (case ParseMultipartForm env 33554432 req of
        (Some err, req) \<Rightarrow> (http_Error rw (Error err) StatusBadRequest, req)
      | (None, req) \<Rightarrow>
          (case MultipartForm req of
             None \<Rightarrow> (rw, req)
           | Some m \<Rightarrow>
               let m = m\<lparr>Value := applyOpsToValues a (order_set env) (order_append env) (Value m)\<rparr>;
                   req = req\<lparr>MultipartForm := Some m\<rparr>;
                   writer = NewWriter (randomBoundary env)
               in (case writeValues (order_values env) writer (Value m) of
                     Inl err \<Rightarrow> (http_Error rw (Error err) StatusInternalServerError, req)
                   | Inr writer \<Rightarrow>
                  (case writeFiles (order_files env) writer (File m) of
                     Inl err \<Rightarrow> (http_Error rw (Error err) StatusInternalServerError, req)
                   | Inr writer \<Rightarrow>
                  (case Close writer of
                     Inl err \<Rightarrow> (http_Error rw (Error err) StatusInternalServerError, req)
                   | Inr writer \<Rightarrow>
                       let body = buf writer;
                           snapshot = body
                       in (rw, req\<lparr>Body := NopCloser (NewReader body),
                                    ContentLength := int (length body),
                                    Header := Header_Set (Header req) ''Content-Type''
                                                (''multipart/form-data; boundary='' @ boundary writer),
                                    GetBody := Some (\<lambda>_. (NopCloser (NewReader snapshot), None))\<rparr>))))))"

section \<open>The dispatcher\<close>

text \<open>
  \<open>ServeHTTP\<close>: at most one of the two handlers runs, then the next handler is
  called with the response writer and the request as they are at that point, whatever
  the handler did.
\<close>

definition ServeHTTP ::
  "Env \<Rightarrow> Formdata \<Rightarrow> (ResponseWriter \<Rightarrow> Request \<Rightarrow> 'r) \<Rightarrow> ResponseWriter \<Rightarrow> Request \<Rightarrow> 'r" where
  "ServeHTTP env a next rw req =
     (let ct = Header_Get (Header req) ''Content-Type'';
          (rw, req) =
            (if HasPrefix ct ''application/x-www-form-urlencoded'' then handleURLEncoded env a rw req
             else if HasPrefix ct ''multipart/form-data'' then handleMultipart env a rw req
             else (rw, req))
      in next rw req)"

section \<open>Specification-level functions\<close>

text \<open>
  These functions are not in the source: the theorems below use them to say what the
  source computes.
\<close>

text \<open>
  Lines 108 to 121 of \<open>handleMultipart\<close> as one step: write the values, write the
  files, close the writer, stopping at the first error.
\<close>

definition rebuildBody :: "Env \<Rightarrow> Form \<Rightarrow> go_error + Writer" where
  "rebuildBody env m =
     (case writeValues (order_values env) (NewWriter (randomBoundary env)) (Value m) of
        Inl err \<Rightarrow> Inl err
      | Inr writer \<Rightarrow>
          (case writeFiles (order_files env) writer (File m) of
             Inl err \<Rightarrow> Inl err
           | Inr writer \<Rightarrow> Close writer))"

text \<open>The text field \<open>k\<close> of the multipart form that a request holds.\<close>

definition form_value_at :: "Request \<Rightarrow> string \<Rightarrow> string list option" where
  "form_value_at req k = (case MultipartForm req of None \<Rightarrow> None | Some m \<Rightarrow> Value m k)"

text \<open>The parsed form after the mutation pass has run on its text fields.\<close>

definition mutated :: "Env \<Rightarrow> Formdata \<Rightarrow> Form \<Rightarrow> Form" where
  "mutated env a m = m\<lparr>Value := applyOpsToValues a (order_set env) (order_append env) (Value m)\<rparr>"

text \<open>What the pass leaves at a key, for every visiting order Go may choose.\<close>

definition after_set :: "Formdata \<Rightarrow> Values \<Rightarrow> string \<Rightarrow> string list option" where
  "after_set a values k =
     (case set_fd a k of
        Some v \<Rightarrow> Some [v]
      | None \<Rightarrow> if k \<in> set (delete_fd a) then None else values k)"

definition after_pass :: "Formdata \<Rightarrow> Values \<Rightarrow> string \<Rightarrow> string list option" where
  "after_pass a values k =
     (case appendTo a k of
        None \<Rightarrow> after_set a values k
      | Some w \<Rightarrow> Some ((case after_set a values k of None \<Rightarrow> [] | Some vs \<Rightarrow> vs) @ [w]))"

text \<open>
  The bytes of a multipart body, as the writer lays them out: a part is its header
  lines and its content; the first part starts with the boundary line, every later one
  with a line break and the boundary line; the body ends with the closing boundary.
\<close>

type_synonym part = "(string \<times> string) list \<times> string"

fun parts_bytes :: "string \<Rightarrow> bool \<Rightarrow> part list \<Rightarrow> string" where
  "parts_bytes b started [] = []"
| "parts_bytes b started ((header, content) # ps) =
     (if started then CRLF @ ''--'' @ b @ CRLF else ''--'' @ b @ CRLF)
     @ header_lines header @ CRLF @ content @ parts_bytes b True ps"

definition multipart_bytes :: "string \<Rightarrow> part list \<Rightarrow> string" where
  "multipart_bytes b ps = parts_bytes b False ps @ CRLF @ ''--'' @ b @ ''--'' @ CRLF"

text \<open>The parts that \<open>writeValues\<close> and \<open>writeFiles\<close> produce from the entries they visit.\<close>

definition value_parts :: "(string \<times> string list) list \<Rightarrow> part list" where
  "value_parts kvs = concat (map (\<lambda>(k, vals). map (\<lambda>v. (field_header k, v)) vals) kvs)"

text \<open>
  A file is readable when it opens and a read to its end meets no error; its content is
  what that read delivers.
\<close>

definition readable :: "FileHeader \<Rightarrow> bool" where
  "readable fh \<longleftrightarrow> (case Open fh of Inl err \<Rightarrow> False | Inr f \<Rightarrow> read_err f = None)"

definition file_content :: "FileHeader \<Rightarrow> string" where
  "file_content fh = (case Open fh of Inl err \<Rightarrow> [] | Inr f \<Rightarrow> data f)"

definition file_part :: "string \<Rightarrow> FileHeader \<Rightarrow> part" where
  "file_part field fh = (file_header field (Filename fh), file_content fh)"

definition file_parts :: "(string \<times> FileHeader list) list \<Rightarrow> part list" where
  "file_parts kfs = concat (map (\<lambda>(field, fhs). map (file_part field) fhs) kfs)"

text \<open>
  The text of a URL-encoded body: the pairs of the given keys, each key with its values in
  the order of its sequence, joined by \<open>&\<close>.
\<close>

fun join_amp :: "string list \<Rightarrow> string" where
  "join_amp [] = []"
| "join_amp [p] = p"
| "join_amp (p # q # ps) = p @ ''&'' @ join_amp (q # ps)"

definition encoded_pairs :: "string list \<Rightarrow> Values \<Rightarrow> string list" where
  "encoded_pairs keys v =
     concat (map (\<lambda>k. map (\<lambda>val. QueryEscape k @ ''='' @ QueryEscape val) (index_map v k)) keys)"

text \<open>
  An uploaded file as the parsed form holds it: field name, file name, content. A name
  is plain when it holds none of the four bytes that the writer's quoting changes.
\<close>

type_synonym upload = "string \<times> string \<times> string"

definition uploaded_files :: "(string \<times> FileHeader list) list \<Rightarrow> upload list" where
  "uploaded_files kfs =
     concat (map (\<lambda>(field, fhs). map (\<lambda>fh. (field, Filename fh, file_content fh)) fhs) kfs)"

definition plain_name :: "string \<Rightarrow> bool" where
  "plain_name s \<longleftrightarrow> set s \<inter> {CHR 0x5C, CHR 0x22, CHR 0x0D, CHR 0x0A} = {}"

definition quoted_names :: "upload \<Rightarrow> upload" where
  "quoted_names u = (case u of (field, filename, content) \<Rightarrow>
                       (escapeQuotes field, escapeQuotes filename, content))"

text \<open>
  The bytes of a run of file parts, spelled out: boundary line, the Content-Disposition
  line with the two names between double quotes, the Content-Type line, an empty line,
  the content.
\<close>

fun files_text :: "string \<Rightarrow> bool \<Rightarrow> upload list \<Rightarrow> string" where
  "files_text b started [] = []"
| "files_text b started ((field, filename, content) # us) =
     (if started then CRLF @ ''--'' @ b @ CRLF else ''--'' @ b @ CRLF)
     @ ''Content-Disposition: form-data; name='' @ [CHR 0x22] @ field @ [CHR 0x22]
     @ ''; filename='' @ [CHR 0x22] @ filename @ [CHR 0x22] @ CRLF
     @ ''Content-Type: application/octet-stream'' @ CRLF
     @ CRLF @ content @ files_text b True us"

section \<open>Example data\<close>

text \<open>The scenario of the repository's URL-encoded test, with one visiting order.\<close>

definition ex_a :: Formdata where
  "ex_a = \<lparr>set_fd = [''b'' \<mapsto> ''y'', ''c'' \<mapsto> ''z''],
            appendTo = [''b'' \<mapsto> ''w'', ''d'' \<mapsto> ''q''],
            delete_fd = [''a''], name = ''test''\<rparr>"

definition ex_form :: Values where
  "ex_form = [''a'' \<mapsto> [''1'', ''2''], ''b'' \<mapsto> [''x'']]"

text \<open>A plugin whose three key sets do not meet, and a form that has an untouched key.\<close>

definition ex_disjoint :: Formdata where
  "ex_disjoint = \<lparr>set_fd = [''c'' \<mapsto> ''z''], appendTo = [''b'' \<mapsto> ''w''],
                   delete_fd = [''a''], name = ''test''\<rparr>"

definition ex_form2 :: Values where
  "ex_form2 = [''a'' \<mapsto> [''1'', ''2''], ''b'' \<mapsto> [''x''], ''e'' \<mapsto> [''5'', ''6'']]"

text \<open>A plugin that deletes, sets and appends one and the same key.\<close>

definition ex_overlap :: Formdata where
  "ex_overlap = \<lparr>set_fd = [''k'' \<mapsto> ''v''], appendTo = [''k'' \<mapsto> ''w''],
                  delete_fd = [''k''], name = ''test''\<rparr>"

definition ex_form3 :: Values where
  "ex_form3 = [''k'' \<mapsto> [''old'']]"

text \<open>
  A plugin with one key in delete and set, one in set and append, one in delete and
  append, and a form that has all three.
\<close>

definition ex_pairs :: Formdata where
  "ex_pairs = \<lparr>set_fd = [''p'' \<mapsto> ''1'', ''q'' \<mapsto> ''2''],
                appendTo = [''q'' \<mapsto> ''3'', ''r'' \<mapsto> ''4''],
                delete_fd = [''p'', ''r''], name = ''test''\<rparr>"

definition ex_form4 :: Values where
  "ex_form4 = [''p'' \<mapsto> [''0''], ''q'' \<mapsto> [''0''], ''r'' \<mapsto> [''0'']]"

text \<open>Parsers with a fixed outcome: the body is read to its end, the form is stored.\<close>

definition read_to_end :: "Reader \<Rightarrow> Reader" where
  "read_to_end r = r\<lparr>off := length (src r)\<rparr>"

definition parse_form_to :: "Values \<Rightarrow> Request \<Rightarrow> go_error option \<times> Request" where
  "parse_form_to form r = (None, r\<lparr>Body := read_to_end (Body r), PostForm := form\<rparr>)"

definition parse_multipart_to :: "Form \<Rightarrow> int \<Rightarrow> Request \<Rightarrow> go_error option \<times> Request" where
  "parse_multipart_to m maxMemory r =
     (None, r\<lparr>Body := read_to_end (Body r), PostForm := Value m, MultipartForm := Some m\<rparr>)"

definition parse_form_fails :: "string \<Rightarrow> Request \<Rightarrow> go_error option \<times> Request" where
  "parse_form_fails msg r = (Some (Err msg), r\<lparr>Body := read_to_end (Body r)\<rparr>)"

definition parse_multipart_fails :: "string \<Rightarrow> int \<Rightarrow> Request \<Rightarrow> go_error option \<times> Request" where
  "parse_multipart_fails msg maxMemory r = (Some (Err msg), r\<lparr>Body := read_to_end (Body r)\<rparr>)"

text \<open>A fresh response writer and three requests, one per branch of the dispatcher.\<close>

definition ex_rw :: ResponseWriter where
  "ex_rw = \<lparr>rw_Header = Map.empty, rw_Code = None, rw_Body = []\<rparr>"

definition ex_req_url :: Request where
  "ex_req_url = \<lparr>Header = [''Content-Type'' \<mapsto> [''application/x-www-form-urlencoded'']],
                  Body = NewReader ''a=1&a=2&b=x'', ContentLength = 11, GetBody = None,
                  PostForm = Map.empty, MultipartForm = None\<rparr>"

definition ex_mp_body :: string where
  "ex_mp_body =
     ''--XYZ'' @ CRLF @ ''Content-Disposition: form-data; name='' @ [CHR 0x22] @ ''b'' @ [CHR 0x22]
     @ CRLF @ CRLF @ ''x'' @ CRLF
     @ ''--XYZ'' @ CRLF @ ''Content-Disposition: form-data; name='' @ [CHR 0x22] @ ''file'' @ [CHR 0x22]
     @ ''; filename='' @ [CHR 0x22] @ ''hello.txt'' @ [CHR 0x22] @ CRLF
     @ ''Content-Type: application/octet-stream'' @ CRLF @ CRLF @ ''hello world'' @ CRLF
     @ ''--XYZ--'' @ CRLF"

definition ex_req_mp :: Request where
  "ex_req_mp = \<lparr>Header = [''Content-Type'' \<mapsto> [''multipart/form-data; boundary=XYZ'']],
                 Body = NewReader ex_mp_body, ContentLength = int (length ex_mp_body),
                 GetBody = None, PostForm = Map.empty, MultipartForm = None\<rparr>"

definition ex_req_json :: Request where
  "ex_req_json = \<lparr>Header = [''Content-Type'' \<mapsto> [''application/json'']],
                   Body = NewReader ''{}'', ContentLength = 2, GetBody = None,
                   PostForm = Map.empty, MultipartForm = None\<rparr>"

text \<open>Two uploaded files: one held in memory, one whose temporary file cannot be opened.\<close>

definition hello_fh :: FileHeader where
  "hello_fh = \<lparr>Filename = ''hello.txt'', Open = Inr (OpenFile ''hello world'' None)\<rparr>"

definition lost_fh :: FileHeader where
  "lost_fh = \<lparr>Filename = ''big.bin'', Open = Inl (Err ''open /tmp/multipart-1: too many open files'')\<rparr>"

definition ex_mform :: Form where
  "ex_mform = \<lparr>Value = [''b'' \<mapsto> [''x'']], File = [''file'' \<mapsto> [hello_fh]]\<rparr>"

definition ex_mform_lost :: Form where
  "ex_mform_lost = \<lparr>Value = [''b'' \<mapsto> [''x'']], File = [''file'' \<mapsto> [lost_fh]]\<rparr>"

definition ex_setx :: Formdata where
  "ex_setx = \<lparr>set_fd = [''x'' \<mapsto> ''1''], appendTo = Map.empty, delete_fd = [], name = ''test''\<rparr>"

text \<open>A boundary as \<open>multipart.NewWriter\<close> draws it: sixty hexadecimal digits.\<close>

definition ex_boundary :: string where
  "ex_boundary = ''0f1e2d3c4b5a69788796a5b4c3d2e1f00f1e2d3c4b5a69788796a5b4c3d2''"

text \<open>
  Environments: both parsers succeed, for \<open>ex_pairs\<close> and for \<open>ex_setx\<close>; both
  parsers fail; the multipart parser delivers the file that cannot be opened.
\<close>

definition ex_env_pairs :: Env where
  "ex_env_pairs = \<lparr>ParseForm = parse_form_to ex_form4,
                    ParseMultipartForm = parse_multipart_to \<lparr>Value = ex_form4, File = Map.empty\<rparr>,
                    randomBoundary = ex_boundary,
                    order_set = [''q'', ''p''], order_append = [''r'', ''q''],
                    order_encode = [''r'', ''p'', ''q''], order_values = [''q'', ''r'', ''p''],
                    order_files = []\<rparr>"

definition ex_env :: Env where
  "ex_env = \<lparr>ParseForm = parse_form_to [''b'' \<mapsto> [''x'']],
              ParseMultipartForm = parse_multipart_to ex_mform,
              randomBoundary = ex_boundary,
              order_set = [''x''], order_append = [],
              order_encode = [''x'', ''b''], order_values = [''x'', ''b''],
              order_files = [''file'']\<rparr>"

definition ex_env_fail :: Env where
  "ex_env_fail = ex_env\<lparr>ParseForm := parse_form_fails ''invalid semicolon separator in query'',
                         ParseMultipartForm := parse_multipart_fails ''multipart: NextPart: EOF''\<rparr>"

definition ex_env_lost :: Env where
  "ex_env_lost = ex_env\<lparr>ParseMultipartForm := parse_multipart_to ex_mform_lost\<rparr>"

text \<open>The parts and the writer that the rebuild reaches for \<open>ex_setx\<close> in \<open>ex_env\<close>.\<close>

definition ex_parts :: "part list" where
  "ex_parts = [(field_header ''x'', ''1''), (field_header ''b'', ''x''),
               (file_header ''file'' ''hello.txt'', ''hello world'')]"

definition ex_writer :: Writer where
  "ex_writer = \<lparr>buf = multipart_bytes ex_boundary ex_parts, boundary = ex_boundary, lastpart = False\<rparr>"

text \<open>
  A request whose boundary is the one the writer will draw, with a text field and a
  file that contain that boundary.
\<close>

definition clash_fh :: FileHeader where
  "clash_fh = \<lparr>Filename = ''hello.txt'', Open = Inr (OpenFile (''hello '' @ ex_boundary) None)\<rparr>"

definition ex_mform_clash :: Form where
  "ex_mform_clash = \<lparr>Value = [''b'' \<mapsto> [ex_boundary]], File = [''file'' \<mapsto> [clash_fh]]\<rparr>"

definition ex_req_clash :: Request where
  "ex_req_clash =
     \<lparr>Header = [''Content-Type'' \<mapsto> [''multipart/form-data; boundary='' @ ex_boundary]],
      Body = NewReader (multipart_bytes ex_boundary
               [(field_header ''b'', ex_boundary),
                (file_header ''file'' ''hello.txt'', ''hello '' @ ex_boundary)]),
      ContentLength = int (length (multipart_bytes ex_boundary
               [(field_header ''b'', ex_boundary),
                (file_header ''file'' ''hello.txt'', ''hello '' @ ex_boundary)])),
      GetBody = None, PostForm = Map.empty, MultipartForm = None\<rparr>"

definition ex_env_clash :: Env where
  "ex_env_clash = ex_env\<lparr>ParseMultipartForm := parse_multipart_to ex_mform_clash\<rparr>"

text \<open>The environment of the repository's URL-encoded test.\<close>

definition ex_env_a :: Env where
  "ex_env_a = \<lparr>ParseForm = parse_form_to ex_form,
                ParseMultipartForm = parse_multipart_to \<lparr>Value = ex_form, File = Map.empty\<rparr>,
                randomBoundary = ex_boundary,
                order_set = [''c'', ''b''], order_append = [''b'', ''d''],
                order_encode = [''d'', ''b'', ''c''], order_values = [''d'', ''c'', ''b''],
                order_files = []\<rparr>"

text \<open>
  A file whose name holds a line feed, the request that carries it in the extended
  \<open>filename*\<close> parameter, and the bytes of the body rebuilt for \<open>ex_setx\<close>: the
  two text fields, then the whole body with the file \<open>hello.txt\<close>.
\<close>

definition nl_fh :: FileHeader where
  "nl_fh = \<lparr>Filename = ''a'' @ [CHR 0x0A] @ ''b.txt'', Open = Inr (OpenFile ''hello world'' None)\<rparr>"

definition ex_mform_nl :: Form where
  "ex_mform_nl = \<lparr>Value = [''b'' \<mapsto> [''x'']], File = [''file'' \<mapsto> [nl_fh]]\<rparr>"

definition ex_nl_body :: string where
  "ex_nl_body =
     ''--XYZ'' @ CRLF @ ''Content-Disposition: form-data; name='' @ [CHR 0x22] @ ''b'' @ [CHR 0x22]
     @ CRLF @ CRLF @ ''x'' @ CRLF
     @ ''--XYZ'' @ CRLF @ ''Content-Disposition: form-data; name='' @ [CHR 0x22] @ ''file'' @ [CHR 0x22]
     @ ''; filename*=UTF-8'' @ [CHR 0x27, CHR 0x27] @ ''a%0Ab.txt'' @ CRLF
     @ ''Content-Type: application/octet-stream'' @ CRLF @ CRLF @ ''hello world'' @ CRLF
     @ ''--XYZ--'' @ CRLF"

definition ex_req_nl :: Request where
  "ex_req_nl = \<lparr>Header = [''Content-Type'' \<mapsto> [''multipart/form-data; boundary=XYZ'']],
                 Body = NewReader ex_nl_body, ContentLength = int (length ex_nl_body),
                 GetBody = None, PostForm = Map.empty, MultipartForm = None\<rparr>"

definition ex_env_nl :: Env where
  "ex_env_nl = ex_env\<lparr>ParseMultipartForm := parse_multipart_to ex_mform_nl\<rparr>"

definition ex_values_text :: string where
  "ex_values_text =
     ''--'' @ ex_boundary @ CRLF
     @ ''Content-Disposition: form-data; name='' @ [CHR 0x22] @ ''x'' @ [CHR 0x22] @ CRLF
     @ CRLF @ ''1''
     @ CRLF @ ''--'' @ ex_boundary @ CRLF
     @ ''Content-Disposition: form-data; name='' @ [CHR 0x22] @ ''b'' @ [CHR 0x22] @ CRLF
     @ CRLF @ ''x''"

definition ex_rebuilt_body :: string where
  "ex_rebuilt_body =
     ex_values_text
     @ CRLF @ ''--'' @ ex_boundary @ CRLF
     @ ''Content-Disposition: form-data; name='' @ [CHR 0x22] @ ''file'' @ [CHR 0x22]
     @ ''; filename='' @ [CHR 0x22] @ ''hello.txt'' @ [CHR 0x22] @ CRLF
     @ ''Content-Type: application/octet-stream'' @ CRLF
     @ CRLF @ ''hello world''
     @ CRLF @ ''--'' @ ex_boundary @ ''--'' @ CRLF"

section \<open>Properties of the mutation pass\<close>

lemma fold_delete_lookup:
  "fold (\<lambda>k values. values(k := None)) ds (vals :: Values) k =
     (if k \<in> set ds then None else vals k)"
  by (induction ds arbitrary: vals) auto

lemma range_map_Nil: "range_map [] m = []"
  by (simp add: range_map_def List.map_filter_simps)

lemma range_map_Cons:
  "range_map (x # ks) m = (case m x of None \<Rightarrow> range_map ks m | Some v \<Rightarrow> (x, v) # range_map ks m)"
  by (simp add: range_map_def List.map_filter_simps split: option.splits)

lemma fold_set_lookup:
  "fold (\<lambda>(k, v) values. values(k \<mapsto> [v])) (range_map ks m) (vals :: Values) k =
     (if k \<in> set ks \<and> m k \<noteq> None then map_option (\<lambda>v. [v]) (m k) else vals k)"
  by (induction ks arbitrary: vals) (auto simp: range_map_Nil range_map_Cons split: option.splits)

lemma fold_append_lookup:
  "distinct ks \<Longrightarrow>
   fold (\<lambda>(k, v) values. values(k \<mapsto> index_map values k @ [v])) (range_map ks m) (vals :: Values) k =
     (if k \<in> set ks \<and> m k \<noteq> None then map_option (\<lambda>v. index_map vals k @ [v]) (m k) else vals k)"
proof (induction ks arbitrary: vals)
  case Nil
  then show ?case by (simp add: range_map_Nil)
next
  case (Cons x ks)
  then show ?case
    by (cases "m x") (auto simp: range_map_Cons index_map_def)
qed

lemma applyOpsToValues_lookup:
  assumes "iteration_order os (set_fd a)" and "iteration_order oa (appendTo a)"
  shows "applyOpsToValues a os oa values k = after_pass a values k"
proof -
  have d: "distinct oa" and s: "set os = dom (set_fd a)" and t: "set oa = dom (appendTo a)"
    using assms by (auto simp: iteration_order_def)
  have "applyOpsToValues a os oa values k =
      (let v1 = (\<lambda>k. if k \<in> set (delete_fd a) then None else values k);
           v2 = (\<lambda>k. if set_fd a k \<noteq> None then map_option (\<lambda>v. [v]) (set_fd a k) else v1 k)
       in if appendTo a k \<noteq> None then map_option (\<lambda>w. index_map v2 k @ [w]) (appendTo a k)
          else v2 k)"
    unfolding applyOpsToValues_def Let_def fold_append_lookup [OF d]
    by (simp add: index_map_def fold_set_lookup fold_delete_lookup s t domIff)
  also have "\<dots> = after_pass a values k"
    by (auto simp: after_pass_def after_set_def index_map_def Let_def split: option.splits)
  finally show ?thesis .
qed

lemma mutateForm_eq: "mutateForm a os oa form = applyOpsToValues a os oa form"
proof -
  have 1: "(\<lambda>k form. Values_Del form k) = (\<lambda>k values. values(k := None))"
    by (simp add: fun_eq_iff Values_Del_def)
  have 2: "(\<lambda>(k, v) form. Values_Set form k v) = (\<lambda>(k, v) values. values(k \<mapsto> [v]))"
    by (simp add: fun_eq_iff Values_Set_def)
  have 3: "(\<lambda>(k, v) form. Values_Add form k v) = (\<lambda>(k, v) values. values(k \<mapsto> index_map values k @ [v]))"
    by (simp add: fun_eq_iff Values_Add_def)
  show ?thesis
    by (simp only: mutateForm_def applyOpsToValues_def 1 2 3)
qed

section \<open>The branches of the two handlers\<close>

lemma handleURLEncoded_parse_error:
  "ParseForm env req = (Some e, req1) \<Longrightarrow>
   handleURLEncoded env a rw req = (http_Error rw (Error e) StatusBadRequest, req1)"
  by (simp add: handleURLEncoded_def)

lemma handleURLEncoded_parsed:
  assumes "ParseForm env req = (None, req1)"
  shows "handleURLEncoded env a rw req =
     (rw, req1\<lparr>PostForm := mutateForm a (order_set env) (order_append env) (PostForm req1),
               Body := NewReader (Values_Encode (order_encode env)
                         (mutateForm a (order_set env) (order_append env) (PostForm req1))),
               ContentLength := int (length (Values_Encode (order_encode env)
                         (mutateForm a (order_set env) (order_append env) (PostForm req1)))),
               GetBody := Some (\<lambda>_. (NewReader (Values_Encode (order_encode env)
                         (mutateForm a (order_set env) (order_append env) (PostForm req1))), None))\<rparr>)"
  using assms by (simp add: handleURLEncoded_def Let_def NopCloser_def)

lemma handleMultipart_parse_error:
  "ParseMultipartForm env 33554432 req = (Some e, req1) \<Longrightarrow>
   handleMultipart env a rw req = (http_Error rw (Error e) StatusBadRequest, req1)"
  by (simp add: handleMultipart_def)

lemma handleMultipart_nil:
  "ParseMultipartForm env 33554432 req = (None, req1) \<Longrightarrow> MultipartForm req1 = None \<Longrightarrow>
   handleMultipart env a rw req = (rw, req1)"
  by (simp add: handleMultipart_def)

lemma handleMultipart_rebuild_error:
  assumes "ParseMultipartForm env 33554432 req = (None, req1)" and "MultipartForm req1 = Some m"
    and "rebuildBody env (mutated env a m) = Inl e"
  shows "handleMultipart env a rw req =
     (http_Error rw (Error e) StatusInternalServerError, req1\<lparr>MultipartForm := Some (mutated env a m)\<rparr>)"
  using assms
  by (auto simp: handleMultipart_def rebuildBody_def mutated_def Let_def split: sum.splits)

lemma handleMultipart_rebuilt:
  assumes "ParseMultipartForm env 33554432 req = (None, req1)" and "MultipartForm req1 = Some m"
    and "rebuildBody env (mutated env a m) = Inr w"
  shows "handleMultipart env a rw req =
     (rw, req1\<lparr>MultipartForm := Some (mutated env a m),
               Body := NewReader (buf w),
               ContentLength := int (length (buf w)),
               Header := Header_Set (Header req1) ''Content-Type''
                           (''multipart/form-data; boundary='' @ boundary w),
               GetBody := Some (\<lambda>_. (NewReader (buf w), None))\<rparr>)"
  using assms
  by (auto simp: handleMultipart_def rebuildBody_def mutated_def Let_def NopCloser_def split: sum.splits)

lemma handleMultipart_form_value:
  assumes "ParseMultipartForm env 33554432 req = (None, req1)" and "MultipartForm req1 = Some m"
  shows "form_value_at (snd (handleMultipart env a rw req)) k =
         applyOpsToValues a (order_set env) (order_append env) (Value m) k"
proof (cases "rebuildBody env (mutated env a m)")
  case (Inl e)
  show ?thesis
    by (simp add: handleMultipart_rebuild_error [OF assms Inl] form_value_at_def mutated_def)
next
  case (Inr w)
  show ?thesis
    by (simp add: handleMultipart_rebuilt [OF assms Inr] form_value_at_def mutated_def)
qed

section \<open>Claims about the mutation pass\<close>

text \<open>
  C2. When the delete, set and append key sets are pairwise disjoint, the pass leaves
  every deleted key absent, every set key with exactly its one set value, every
  appended key with its prior values followed by the appended value (the appended value
  alone when the key was absent), and every other key as it was. The loops of
  \<open>handleURLEncoded\<close> compute the same map as \<open>applyOpsToValues\<close>.
\<close>

theorem C2_disjoint_pass:
  assumes "iteration_order os (set_fd a)" and "iteration_order oa (appendTo a)"
    and "set (delete_fd a) \<inter> dom (set_fd a) = {}"
    and "set (delete_fd a) \<inter> dom (appendTo a) = {}"
    and "dom (set_fd a) \<inter> dom (appendTo a) = {}"
  shows "(k \<in> set (delete_fd a) \<longrightarrow> applyOpsToValues a os oa vals k = None)
       \<and> (set_fd a k = Some v \<longrightarrow> applyOpsToValues a os oa vals k = Some [v])
       \<and> (appendTo a k = Some w \<longrightarrow>
            applyOpsToValues a os oa vals k = Some (index_map vals k @ [w]))
       \<and> (k \<notin> set (delete_fd a) \<and> set_fd a k = None \<and> appendTo a k = None \<longrightarrow>
            applyOpsToValues a os oa vals k = vals k)
       \<and> mutateForm a os oa vals = applyOpsToValues a os oa vals"
proof -
  have look: "applyOpsToValues a os oa vals k = after_pass a vals k"
    using assms(1,2) by (rule applyOpsToValues_lookup)
  have del: "k \<in> set (delete_fd a) \<Longrightarrow> set_fd a k = None \<and> appendTo a k = None"
    using assms(3,4) by (auto simp: domIff)
  have app: "appendTo a k = Some w \<Longrightarrow> set_fd a k = None \<and> k \<notin> set (delete_fd a)"
    using assms(4,5) by (auto simp: domIff)
  have st: "set_fd a k = Some v \<Longrightarrow> appendTo a k = None"
    using assms(5) by (auto simp: domIff)
  have 1: "k \<in> set (delete_fd a) \<longrightarrow> after_pass a vals k = None"
    using del by (simp add: after_pass_def after_set_def)
  have 2: "set_fd a k = Some v \<longrightarrow> after_pass a vals k = Some [v]"
    using st by (simp add: after_pass_def after_set_def)
  have 3: "appendTo a k = Some w \<longrightarrow> after_pass a vals k = Some (index_map vals k @ [w])"
    using app by (simp add: after_pass_def after_set_def index_map_def)
  have 4: "k \<notin> set (delete_fd a) \<and> set_fd a k = None \<and> appendTo a k = None \<longrightarrow>
            after_pass a vals k = vals k"
    by (simp add: after_pass_def after_set_def)
  show ?thesis
    unfolding look using 1 2 3 4 mutateForm_eq by blast
qed

text \<open>The theorem at one plugin with disjoint key sets, on a form with four keys.\<close>

theorem C2_disjoint_pass_witness:
  "iteration_order [''c''] (set_fd ex_disjoint) \<and> iteration_order [''b''] (appendTo ex_disjoint)
   \<and> set (delete_fd ex_disjoint) \<inter> dom (set_fd ex_disjoint) = {}
   \<and> set (delete_fd ex_disjoint) \<inter> dom (appendTo ex_disjoint) = {}
   \<and> dom (set_fd ex_disjoint) \<inter> dom (appendTo ex_disjoint) = {}
   \<and> applyOpsToValues ex_disjoint [''c''] [''b''] ex_form2 ''a'' = None
   \<and> applyOpsToValues ex_disjoint [''c''] [''b''] ex_form2 ''c'' = Some [''z'']
   \<and> applyOpsToValues ex_disjoint [''c''] [''b''] ex_form2 ''b'' = Some [''x'', ''w'']
   \<and> applyOpsToValues ex_disjoint [''c''] [''b''] ex_form2 ''e'' = Some [''5'', ''6'']"
proof -
  have h1: "iteration_order [''c''] (set_fd ex_disjoint)"
    and h2: "iteration_order [''b''] (appendTo ex_disjoint)"
    by (simp_all add: iteration_order_def ex_disjoint_def)
  have h3: "set (delete_fd ex_disjoint) \<inter> dom (set_fd ex_disjoint) = {}"
    and h4: "set (delete_fd ex_disjoint) \<inter> dom (appendTo ex_disjoint) = {}"
    and h5: "dom (set_fd ex_disjoint) \<inter> dom (appendTo ex_disjoint) = {}"
    by (simp_all add: ex_disjoint_def)
  note t = C2_disjoint_pass [OF h1 h2 h3 h4 h5, where vals = ex_form2]
  have a: "applyOpsToValues ex_disjoint [''c''] [''b''] ex_form2 ''a'' = None"
    using t [of "''a''"] by (simp add: ex_disjoint_def)
  have c: "applyOpsToValues ex_disjoint [''c''] [''b''] ex_form2 ''c'' = Some [''z'']"
    using t [of "''c''" "''z''"] by (simp add: ex_disjoint_def)
  have b: "applyOpsToValues ex_disjoint [''c''] [''b''] ex_form2 ''b'' = Some [''x'', ''w'']"
    using t [of "''b''" _ "''w''"] by (simp add: ex_disjoint_def ex_form2_def index_map_def)
  have e: "applyOpsToValues ex_disjoint [''c''] [''b''] ex_form2 ''e'' = Some [''5'', ''6'']"
    using t [of "''e''"] by (simp add: ex_disjoint_def ex_form2_def)
  show ?thesis using h1 h2 h3 h4 h5 a b c e by simp
qed

lemma after_pass_delete_set:
  "set_fd a k = Some v \<Longrightarrow> appendTo a k = None \<Longrightarrow> after_pass a vals k = Some [v]"
  by (simp add: after_pass_def after_set_def)

lemma after_pass_set_append:
  "set_fd a k = Some v \<Longrightarrow> appendTo a k = Some w \<Longrightarrow> after_pass a vals k = Some [v, w]"
  by (simp add: after_pass_def after_set_def)

lemma after_pass_delete_append:
  "k \<in> set (delete_fd a) \<Longrightarrow> set_fd a k = None \<Longrightarrow> appendTo a k = Some w \<Longrightarrow>
   after_pass a vals k = Some [w]"
  by (simp add: after_pass_def after_set_def)

text \<open>
  C1 (amended). On both paths the pass applies delete, then set, then append: a key in
  deleteKeys and setFields that is not in appendFields ends with exactly its set value; a
  key in setFields and appendFields ends with exactly the set value followed by the
  appended value; a key in deleteKeys and appendFields that is not in setFields ends with
  exactly its appended value. The form read here is the one the request holds when the
  handler returns: \<open>PostForm\<close> on the URL-encoded path, the text fields of
  \<open>MultipartForm\<close> on the multipart path.
\<close>

theorem C1_order_delete_set_append:
  assumes os: "iteration_order (order_set env) (set_fd a)"
    and oa: "iteration_order (order_append env) (appendTo a)"
  shows "(ParseForm env req = (None, req1) \<longrightarrow>
           (k \<in> set (delete_fd a) \<and> set_fd a k = Some v \<and> appendTo a k = None \<longrightarrow>
              PostForm (snd (handleURLEncoded env a rw req)) k = Some [v])
         \<and> (set_fd a k = Some v \<and> appendTo a k = Some w \<longrightarrow>
              PostForm (snd (handleURLEncoded env a rw req)) k = Some [v, w])
         \<and> (k \<in> set (delete_fd a) \<and> set_fd a k = None \<and> appendTo a k = Some w \<longrightarrow>
              PostForm (snd (handleURLEncoded env a rw req)) k = Some [w]))
       \<and> (ParseMultipartForm env 33554432 req = (None, req2) \<and> MultipartForm req2 = Some m \<longrightarrow>
           (k \<in> set (delete_fd a) \<and> set_fd a k = Some v \<and> appendTo a k = None \<longrightarrow>
              form_value_at (snd (handleMultipart env a rw req)) k = Some [v])
         \<and> (set_fd a k = Some v \<and> appendTo a k = Some w \<longrightarrow>
              form_value_at (snd (handleMultipart env a rw req)) k = Some [v, w])
         \<and> (k \<in> set (delete_fd a) \<and> set_fd a k = None \<and> appendTo a k = Some w \<longrightarrow>
              form_value_at (snd (handleMultipart env a rw req)) k = Some [w]))"
proof -
  have u: "PostForm (snd (handleURLEncoded env a rw req)) k = after_pass a (PostForm req1) k"
    if "ParseForm env req = (None, req1)"
    by (simp add: handleURLEncoded_parsed [OF that] mutateForm_eq applyOpsToValues_lookup [OF os oa])
  have m: "form_value_at (snd (handleMultipart env a rw req)) k = after_pass a (Value m) k"
    if "ParseMultipartForm env 33554432 req = (None, req2)" and "MultipartForm req2 = Some m"
    by (simp add: handleMultipart_form_value [OF that] applyOpsToValues_lookup [OF os oa])
  show ?thesis
    using u m after_pass_delete_set after_pass_set_append after_pass_delete_append
    by metis
qed

text \<open>
  The theorem on both paths, at a plugin with one key for each of the three clauses:
  \<open>p\<close> is deleted and set, \<open>q\<close> is set and appended, \<open>r\<close> is deleted and appended.
\<close>

theorem C1_order_delete_set_append_witness:
  "iteration_order (order_set ex_env_pairs) (set_fd ex_pairs)
   \<and> iteration_order (order_append ex_env_pairs) (appendTo ex_pairs)
   \<and> fst (ParseForm ex_env_pairs ex_req_url) = None
   \<and> fst (ParseMultipartForm ex_env_pairs 33554432 ex_req_mp) = None
   \<and> PostForm (snd (handleURLEncoded ex_env_pairs ex_pairs ex_rw ex_req_url)) ''p'' = Some [''1'']
   \<and> PostForm (snd (handleURLEncoded ex_env_pairs ex_pairs ex_rw ex_req_url)) ''q'' = Some [''2'', ''3'']
   \<and> PostForm (snd (handleURLEncoded ex_env_pairs ex_pairs ex_rw ex_req_url)) ''r'' = Some [''4'']
   \<and> form_value_at (snd (handleMultipart ex_env_pairs ex_pairs ex_rw ex_req_mp)) ''p'' = Some [''1'']
   \<and> form_value_at (snd (handleMultipart ex_env_pairs ex_pairs ex_rw ex_req_mp)) ''q'' = Some [''2'', ''3'']
   \<and> form_value_at (snd (handleMultipart ex_env_pairs ex_pairs ex_rw ex_req_mp)) ''r'' = Some [''4'']"
proof -
  have h1: "iteration_order (order_set ex_env_pairs) (set_fd ex_pairs)"
    and h2: "iteration_order (order_append ex_env_pairs) (appendTo ex_pairs)"
    by (auto simp: iteration_order_def ex_env_pairs_def ex_pairs_def)
  have pu: "ParseForm ex_env_pairs ex_req_url = (None, snd (ParseForm ex_env_pairs ex_req_url))"
    by (simp add: ex_env_pairs_def parse_form_to_def)
  have pm: "ParseMultipartForm ex_env_pairs 33554432 ex_req_mp
              = (None, snd (ParseMultipartForm ex_env_pairs 33554432 ex_req_mp))"
    and m: "MultipartForm (snd (ParseMultipartForm ex_env_pairs 33554432 ex_req_mp))
              = Some \<lparr>Value = ex_form4, File = Map.empty\<rparr>"
    by (simp_all add: ex_env_pairs_def parse_multipart_to_def)
  note u = C1_order_delete_set_append [OF h1 h2, where req = ex_req_url and rw = ex_rw
      and ?req1.0 = "snd (ParseForm ex_env_pairs ex_req_url)", THEN conjunct1, rule_format, OF pu]
  note t = C1_order_delete_set_append [OF h1 h2, where req = ex_req_mp and rw = ex_rw
      and ?req2.0 = "snd (ParseMultipartForm ex_env_pairs 33554432 ex_req_mp)",
      THEN conjunct2, rule_format, OF conjI [OF pm m]]
  have "PostForm (snd (handleURLEncoded ex_env_pairs ex_pairs ex_rw ex_req_url)) ''p'' = Some [''1'']"
    using u [of "''p''" "''1''"] by (simp add: ex_pairs_def)
  moreover have "PostForm (snd (handleURLEncoded ex_env_pairs ex_pairs ex_rw ex_req_url)) ''q'' = Some [''2'', ''3'']"
    using u [of "''q''" "''2''" "''3''"] by (simp add: ex_pairs_def)
  moreover have "PostForm (snd (handleURLEncoded ex_env_pairs ex_pairs ex_rw ex_req_url)) ''r'' = Some [''4'']"
    using u [of "''r''" _ "''4''"] by (simp add: ex_pairs_def)
  moreover have "form_value_at (snd (handleMultipart ex_env_pairs ex_pairs ex_rw ex_req_mp)) ''p'' = Some [''1'']"
    using t [of "''p''" "''1''"] by (simp add: ex_pairs_def)
  moreover have "form_value_at (snd (handleMultipart ex_env_pairs ex_pairs ex_rw ex_req_mp)) ''q'' = Some [''2'', ''3'']"
    using t [of "''q''" "''2''" "''3''"] by (simp add: ex_pairs_def)
  moreover have "form_value_at (snd (handleMultipart ex_env_pairs ex_pairs ex_rw ex_req_mp)) ''r'' = Some [''4'']"
    using t [of "''r''" _ "''4''"] by (simp add: ex_pairs_def)
  moreover have "fst (ParseForm ex_env_pairs ex_req_url) = None"
    by (simp add: ex_env_pairs_def parse_form_to_def)
  moreover have "fst (ParseMultipartForm ex_env_pairs 33554432 ex_req_mp) = None"
    by (simp add: ex_env_pairs_def parse_multipart_to_def)
  ultimately show ?thesis
    using h1 h2 by simp
qed

text \<open>
  The claim as stated fails for a key that is in all three sets: deleted and set, it
  does not end with the set value alone; deleted and appended, it does not end with the
  appended value alone.
\<close>

theorem C1_three_way_counterexample:
  "iteration_order [''k''] (set_fd ex_overlap) \<and> iteration_order [''k''] (appendTo ex_overlap)
   \<and> ''k'' \<in> set (delete_fd ex_overlap)
   \<and> set_fd ex_overlap ''k'' = Some ''v'' \<and> appendTo ex_overlap ''k'' = Some ''w''
   \<and> applyOpsToValues ex_overlap [''k''] [''k''] ex_form3 ''k'' = Some [''v'', ''w'']
   \<and> applyOpsToValues ex_overlap [''k''] [''k''] ex_form3 ''k'' \<noteq> Some [''v'']
   \<and> applyOpsToValues ex_overlap [''k''] [''k''] ex_form3 ''k'' \<noteq> Some [''w'']
   \<and> mutateForm ex_overlap [''k''] [''k''] ex_form3 ''k'' = Some [''v'', ''w'']"
  by (simp add: iteration_order_def ex_overlap_def ex_form3_def applyOpsToValues_def mutateForm_def
      range_map_Nil range_map_Cons index_map_def Values_Del_def Values_Set_def Values_Add_def)

section \<open>Claims about the dispatcher\<close>

lemma ServeHTTP_urlencoded:
  "HasPrefix (Header_Get (Header req) ''Content-Type'') ''application/x-www-form-urlencoded'' \<Longrightarrow>
   ServeHTTP env a next rw req =
     next (fst (handleURLEncoded env a rw req)) (snd (handleURLEncoded env a rw req))"
  by (simp add: ServeHTTP_def Let_def split: prod.splits)

lemma ServeHTTP_multipart:
  "\<not> HasPrefix (Header_Get (Header req) ''Content-Type'') ''application/x-www-form-urlencoded'' \<Longrightarrow>
   HasPrefix (Header_Get (Header req) ''Content-Type'') ''multipart/form-data'' \<Longrightarrow>
   ServeHTTP env a next rw req =
     next (fst (handleMultipart env a rw req)) (snd (handleMultipart env a rw req))"
  by (simp add: ServeHTTP_def Let_def split: prod.splits)

lemma ServeHTTP_other:
  "\<not> HasPrefix (Header_Get (Header req) ''Content-Type'') ''application/x-www-form-urlencoded'' \<Longrightarrow>
   \<not> HasPrefix (Header_Get (Header req) ''Content-Type'') ''multipart/form-data'' \<Longrightarrow>
   ServeHTTP env a next rw req = next rw req"
  by (simp add: ServeHTTP_def Let_def)

lemma http_Error_fresh:
  "rw_Code rw = None \<Longrightarrow>
   rw_Code (http_Error rw msg code) = Some code
   \<and> rw_Body (http_Error rw msg code) = rw_Body rw @ msg @ [CHR 0x0A]"
  by (simp add: http_Error_def rw_Write_def WriteHeader_def Let_def)

lemma HasPrefix_Nil: "HasPrefix [] (c # cs) = False"
  by (simp add: HasPrefix_def)

lemma HasPrefix_Cons: "HasPrefix (x # xs) (c # cs) \<longleftrightarrow> x = c \<and> HasPrefix xs cs"
  by (auto simp: HasPrefix_def)

lemma HasPrefix_empty: "HasPrefix s []"
  by (simp add: HasPrefix_def)

text \<open>
  C7. A request whose Content-Type starts with neither
  \<open>application/x-www-form-urlencoded\<close> nor \<open>multipart/form-data\<close>, and so also a
  request without a Content-Type, reaches the next handler as it came: the same response
  writer and the same request, hence the same body, headers, content length and replay
  function.
\<close>

theorem C7_other_content_type_passes_through:
  "(\<not> HasPrefix (Header_Get (Header req) ''Content-Type'') ''application/x-www-form-urlencoded''
     \<and> \<not> HasPrefix (Header_Get (Header req) ''Content-Type'') ''multipart/form-data''
     \<longrightarrow> ServeHTTP env a next rw req = next rw req)
   \<and> (Header req ''Content-Type'' = None \<longrightarrow> ServeHTTP env a next rw req = next rw req)"
proof -
  have "Header req ''Content-Type'' = None \<Longrightarrow> Header_Get (Header req) ''Content-Type'' = []"
    by (simp add: Header_Get_def)
  then show ?thesis
    using ServeHTTP_other [of req env a "next" rw] by (auto simp: HasPrefix_Nil)
qed

text \<open>
  The theorem at a request with Content-Type \<open>application/json\<close> and at the same
  request without any header.
\<close>

theorem C7_other_content_type_passes_through_witness:
  "\<not> HasPrefix (Header_Get (Header ex_req_json) ''Content-Type'') ''application/x-www-form-urlencoded''
   \<and> \<not> HasPrefix (Header_Get (Header ex_req_json) ''Content-Type'') ''multipart/form-data''
   \<and> ServeHTTP ex_env ex_setx Pair ex_rw ex_req_json = (ex_rw, ex_req_json)
   \<and> Header (ex_req_json\<lparr>Header := Map.empty\<rparr>) ''Content-Type'' = None
   \<and> ServeHTTP ex_env ex_setx Pair ex_rw (ex_req_json\<lparr>Header := Map.empty\<rparr>)
       = (ex_rw, ex_req_json\<lparr>Header := Map.empty\<rparr>)"
proof -
  have h1: "\<not> HasPrefix (Header_Get (Header ex_req_json) ''Content-Type'') ''application/x-www-form-urlencoded''"
    and h2: "\<not> HasPrefix (Header_Get (Header ex_req_json) ''Content-Type'') ''multipart/form-data''"
    by (simp_all add: ex_req_json_def Header_Get_def HasPrefix_Cons)
  have h3: "Header (ex_req_json\<lparr>Header := Map.empty\<rparr>) ''Content-Type'' = None"
    by simp
  show ?thesis
    using h1 h2 h3
      C7_other_content_type_passes_through [of ex_req_json ex_env ex_setx Pair ex_rw]
      C7_other_content_type_passes_through [of "ex_req_json\<lparr>Header := Map.empty\<rparr>" ex_env ex_setx Pair ex_rw]
    by simp
qed

text \<open>
  C5. When the parser of the recognised content type reports an error, the filter
  writes the parser's message with status 400 through \<open>http.Error\<close>, assigns nothing
  to the request, and the next handler is still called, with the request as the parser
  left it. On a response writer that has not sent a status yet, the status is 400 and
  the message, with a newline, is appended to the response body.
\<close>

theorem C5_parse_failure:
  "(HasPrefix (Header_Get (Header req) ''Content-Type'') ''application/x-www-form-urlencoded''
      \<and> ParseForm env req = (Some e, req1)
     \<longrightarrow> ServeHTTP env a next rw req = next (http_Error rw (Error e) 400) req1)
   \<and> (\<not> HasPrefix (Header_Get (Header req) ''Content-Type'') ''application/x-www-form-urlencoded''
      \<and> HasPrefix (Header_Get (Header req) ''Content-Type'') ''multipart/form-data''
      \<and> ParseMultipartForm env 33554432 req = (Some e, req1)
     \<longrightarrow> ServeHTTP env a next rw req = next (http_Error rw (Error e) 400) req1)
   \<and> (rw_Code rw = None
     \<longrightarrow> rw_Code (http_Error rw (Error e) 400) = Some 400
       \<and> rw_Body (http_Error rw (Error e) 400) = rw_Body rw @ Error e @ [CHR 0x0A])"
  using ServeHTTP_urlencoded [of req env a "next" rw] ServeHTTP_multipart [of req env a "next" rw]
    handleURLEncoded_parse_error [of env req e req1 a rw]
    handleMultipart_parse_error [of env req e req1 a rw]
    http_Error_fresh [of rw "Error e" 400]
  by (simp add: StatusBadRequest_def)

text \<open>
  The theorem at a URL-encoded and at a multipart request, with parsers that fail; the
  next handler returns the response writer and the request it was called with.
\<close>

theorem C5_parse_failure_witness:
  "HasPrefix (Header_Get (Header ex_req_url) ''Content-Type'') ''application/x-www-form-urlencoded''
   \<and> ParseForm ex_env_fail ex_req_url
       = (Some (Err ''invalid semicolon separator in query''), ex_req_url\<lparr>Body := read_to_end (Body ex_req_url)\<rparr>)
   \<and> \<not> HasPrefix (Header_Get (Header ex_req_mp) ''Content-Type'') ''application/x-www-form-urlencoded''
   \<and> HasPrefix (Header_Get (Header ex_req_mp) ''Content-Type'') ''multipart/form-data''
   \<and> ParseMultipartForm ex_env_fail 33554432 ex_req_mp
       = (Some (Err ''multipart: NextPart: EOF''), ex_req_mp\<lparr>Body := read_to_end (Body ex_req_mp)\<rparr>)
   \<and> rw_Code ex_rw = None
   \<and> ServeHTTP ex_env_fail ex_setx Pair ex_rw ex_req_url
       = (http_Error ex_rw ''invalid semicolon separator in query'' 400,
          ex_req_url\<lparr>Body := read_to_end (Body ex_req_url)\<rparr>)
   \<and> ServeHTTP ex_env_fail ex_setx Pair ex_rw ex_req_mp
       = (http_Error ex_rw ''multipart: NextPart: EOF'' 400,
          ex_req_mp\<lparr>Body := read_to_end (Body ex_req_mp)\<rparr>)
   \<and> rw_Code (http_Error ex_rw ''multipart: NextPart: EOF'' 400) = Some 400
   \<and> rw_Body (http_Error ex_rw ''multipart: NextPart: EOF'' 400) = ''multipart: NextPart: EOF'' @ [CHR 0x0A]"
proof -
  have h1: "HasPrefix (Header_Get (Header ex_req_url) ''Content-Type'') ''application/x-www-form-urlencoded''"
    by (simp add: ex_req_url_def Header_Get_def HasPrefix_Cons HasPrefix_empty)
  have h2: "ParseForm ex_env_fail ex_req_url
       = (Some (Err ''invalid semicolon separator in query''), ex_req_url\<lparr>Body := read_to_end (Body ex_req_url)\<rparr>)"
    by (simp add: ex_env_fail_def parse_form_fails_def)
  have h3: "\<not> HasPrefix (Header_Get (Header ex_req_mp) ''Content-Type'') ''application/x-www-form-urlencoded''"
    by (simp add: ex_req_mp_def Header_Get_def HasPrefix_Cons)
  have h4: "HasPrefix (Header_Get (Header ex_req_mp) ''Content-Type'') ''multipart/form-data''"
    by (simp add: ex_req_mp_def Header_Get_def HasPrefix_Cons HasPrefix_empty)
  have h5: "ParseMultipartForm ex_env_fail 33554432 ex_req_mp
       = (Some (Err ''multipart: NextPart: EOF''), ex_req_mp\<lparr>Body := read_to_end (Body ex_req_mp)\<rparr>)"
    by (simp add: ex_env_fail_def parse_multipart_fails_def)
  have h6: "rw_Code ex_rw = None"
    by (simp add: ex_rw_def)
  have b: "rw_Body ex_rw = []"
    by (simp add: ex_rw_def)
  show ?thesis
    using h1 h2 h3 h4 h5 h6 b
      C5_parse_failure [of ex_req_url ex_env_fail "Err ''invalid semicolon separator in query''"
        "ex_req_url\<lparr>Body := read_to_end (Body ex_req_url)\<rparr>" ex_setx Pair ex_rw]
      C5_parse_failure [of ex_req_mp ex_env_fail "Err ''multipart: NextPart: EOF''"
        "ex_req_mp\<lparr>Body := read_to_end (Body ex_req_mp)\<rparr>" ex_setx Pair ex_rw]
    by simp
qed

section \<open>The bytes of the rebuilt multipart body\<close>

lemma parts_bytes_append:
  "parts_bytes b started (ps @ qs) = parts_bytes b started ps @ parts_bytes b (started \<or> ps \<noteq> []) qs"
  by (induction ps arbitrary: started) auto

lemma writeValues_vals_eq:
  "writeValues_vals w k vals =
     Inr (w\<lparr>buf := buf w @ parts_bytes (boundary w) (lastpart w) (map (\<lambda>v. (field_header k, v)) vals),
            lastpart := lastpart w \<or> vals \<noteq> []\<rparr>)"
proof (induction vals arbitrary: w)
  case Nil
  then show ?case by simp
next
  case (Cons v vals)
  show ?case
    by (simp add: Cons WriteField_def CreateFormField_def CreatePart_def part_Write_def)
qed

lemma writeValues_loop_eq:
  "writeValues_loop w kvs =
     Inr (w\<lparr>buf := buf w @ parts_bytes (boundary w) (lastpart w) (value_parts kvs),
            lastpart := lastpart w \<or> value_parts kvs \<noteq> []\<rparr>)"
proof (induction kvs arbitrary: w)
  case Nil
  then show ?case by (simp add: value_parts_def)
next
  case (Cons kv kvs)
  obtain k vals where kv: "kv = (k, vals)" by (cases kv)
  show ?case
    by (simp add: kv Cons writeValues_vals_eq value_parts_def parts_bytes_append)
qed

lemma writeFiles_fhs_eq:
  assumes "\<forall>fh \<in> set fhs. readable fh"
  shows "writeFiles_fhs w field fhs =
     Inr (w\<lparr>buf := buf w @ parts_bytes (boundary w) (lastpart w) (map (file_part field) fhs),
            lastpart := lastpart w \<or> fhs \<noteq> []\<rparr>)"
  using assms
proof (induction fhs arbitrary: w)
  case Nil
  then show ?case by simp
next
  case (Cons fh fhs)
  from Cons.prems obtain f where f: "Open fh = Inr f" "read_err f = None"
    by (auto simp: readable_def split: sum.splits)
  from Cons.prems have rest: "\<forall>fh \<in> set fhs. readable fh" by simp
  show ?case
    by (simp add: f Cons.IH [OF rest] CreateFormFile_def CreatePart_def io_Copy_def part_Write_def
        file_part_def file_content_def)
qed

lemma writeFiles_loop_eq:
  assumes "\<forall>(field, fhs) \<in> set kfs. \<forall>fh \<in> set fhs. readable fh"
  shows "writeFiles_loop w kfs =
     Inr (w\<lparr>buf := buf w @ parts_bytes (boundary w) (lastpart w) (file_parts kfs),
            lastpart := lastpart w \<or> file_parts kfs \<noteq> []\<rparr>)"
  using assms
proof (induction kfs arbitrary: w)
  case Nil
  then show ?case by (simp add: file_parts_def)
next
  case (Cons kf kfs)
  obtain field fhs where kf: "kf = (field, fhs)" by (cases kf)
  from Cons.prems have here: "\<forall>fh \<in> set fhs. readable fh"
    and rest: "\<forall>(field, fhs) \<in> set kfs. \<forall>fh \<in> set fhs. readable fh"
    by (auto simp: kf)
  show ?case
    by (simp add: kf writeFiles_fhs_eq [OF here] Cons.IH [OF rest] file_parts_def parts_bytes_append)
qed

lemma set_range_map:
  "set ks = dom m \<Longrightarrow> set (range_map ks m) = {(k, v). m k = Some v}"
proof -
  have "set (range_map ks m) = {(k, v). k \<in> set ks \<and> m k = Some v}" for ks
    by (induction ks) (auto simp: range_map_Nil range_map_Cons split: option.splits)
  moreover assume "set ks = dom m"
  ultimately show ?thesis by auto
qed

lemma rebuildBody_readable:
  assumes "set (order_files env) = dom (File m)"
    and "\<forall>fhs \<in> ran (File m). \<forall>fh \<in> set fhs. readable fh"
  shows "\<exists>w. rebuildBody env m = Inr w
     \<and> boundary w = randomBoundary env
     \<and> buf w = multipart_bytes (randomBoundary env)
                  (value_parts (range_map (order_values env) (Value m))
                   @ file_parts (range_map (order_files env) (File m)))"
proof -
  have "\<forall>(field, fhs) \<in> set (range_map (order_files env) (File m)). \<forall>fh \<in> set fhs. readable fh"
    using assms by (auto simp: set_range_map ran_def)
  then show ?thesis
    by (simp add: rebuildBody_def writeValues_def writeFiles_def writeValues_loop_eq
        writeFiles_loop_eq Close_def NewWriter_def multipart_bytes_def parts_bytes_append)
qed

lemma writeFiles_fhs_Inr:
  "writeFiles_fhs w field fhs = Inr w' \<Longrightarrow> \<forall>fh \<in> set fhs. readable fh"
proof (induction fhs arbitrary: w)
  case Nil
  then show ?case by simp
next
  case (Cons fh fhs)
  from Cons.prems obtain f w1 where f: "Open fh = Inr f" "read_err f = None"
    and rest: "writeFiles_fhs w1 field fhs = Inr w'"
    by (auto simp: CreateFormFile_def CreatePart_def io_Copy_def part_Write_def
        split: sum.splits option.splits)
  from f have "readable fh" by (simp add: readable_def)
  with Cons.IH [OF rest] show ?case by simp
qed

lemma writeFiles_loop_Inr:
  "writeFiles_loop w kfs = Inr w' \<Longrightarrow> \<forall>(field, fhs) \<in> set kfs. \<forall>fh \<in> set fhs. readable fh"
proof (induction kfs arbitrary: w)
  case Nil
  then show ?case by simp
next
  case (Cons kf kfs)
  obtain field fhs where kf: "kf = (field, fhs)" by (cases kf)
  from Cons.prems obtain w1 where here: "writeFiles_fhs w field fhs = Inr w1"
    and rest: "writeFiles_loop w1 kfs = Inr w'"
    by (auto simp: kf split: sum.splits)
  show ?case
    using writeFiles_fhs_Inr [OF here] Cons.IH [OF rest] by (simp add: kf)
qed

lemma rebuildBody_Inr:
  assumes "rebuildBody env m = Inr w"
  shows "w = \<lparr>buf = multipart_bytes (randomBoundary env)
                    (value_parts (range_map (order_values env) (Value m))
                     @ file_parts (range_map (order_files env) (File m))),
              boundary = randomBoundary env, lastpart = False\<rparr>"
proof -
  let ?w1 = "(NewWriter (randomBoundary env))
      \<lparr>buf := buf (NewWriter (randomBoundary env))
               @ parts_bytes (boundary (NewWriter (randomBoundary env)))
                   (lastpart (NewWriter (randomBoundary env)))
                   (value_parts (range_map (order_values env) (Value m))),
        lastpart := lastpart (NewWriter (randomBoundary env))
                    \<or> value_parts (range_map (order_values env) (Value m)) \<noteq> []\<rparr>"
  have v: "writeValues (order_values env) (NewWriter (randomBoundary env)) (Value m) = Inr ?w1"
    by (simp only: writeValues_def writeValues_loop_eq)
  from assms obtain w2 where f: "writeFiles_loop ?w1 (range_map (order_files env) (File m)) = Inr w2"
    and c: "Close w2 = Inr w"
    by (auto simp: rebuildBody_def v writeFiles_def split: sum.splits)
  note r = writeFiles_loop_Inr [OF f]
  from f have w2: "w2 = ?w1\<lparr>buf := buf ?w1 @ parts_bytes (boundary ?w1) (lastpart ?w1)
                                  (file_parts (range_map (order_files env) (File m))),
                          lastpart := lastpart ?w1
                                  \<or> file_parts (range_map (order_files env) (File m)) \<noteq> []\<rparr>"
    by (simp only: writeFiles_loop_eq [OF r] sum.inject)
  from c show ?thesis
    by (simp add: w2 Close_def NewWriter_def multipart_bytes_def parts_bytes_append)
qed

lemma header_lines_field:
  "header_lines (field_header k) =
     ''Content-Disposition: form-data; name='' @ [CHR 0x22] @ escapeQuotes k @ [CHR 0x22] @ CRLF"
  by (simp add: header_lines_def field_header_def)

lemma Content_Disposition_le: "''Content-Disposition'' \<le> ''Content-Type''"
  by simp

lemma header_lines_file:
  "header_lines (file_header field filename) =
     ''Content-Disposition: form-data; name='' @ [CHR 0x22] @ escapeQuotes field @ [CHR 0x22]
     @ ''; filename='' @ [CHR 0x22] @ escapeQuotes filename @ [CHR 0x22] @ CRLF
     @ ''Content-Type: application/octet-stream'' @ CRLF"
  by (simp add: header_lines_def file_header_def Content_Disposition_le)

section \<open>Claims about the replaced body\<close>

lemma ex_rebuild: "rebuildBody ex_env (mutated ex_env ex_setx ex_mform) = Inr ex_writer"
proof -
  have o: "set (order_files ex_env) = dom (File (mutated ex_env ex_setx ex_mform))"
    by (simp add: ex_env_def ex_mform_def mutated_def)
  have r: "\<forall>fhs \<in> ran (File (mutated ex_env ex_setx ex_mform)). \<forall>fh \<in> set fhs. readable fh"
    by (simp add: ex_mform_def mutated_def readable_def hello_fh_def)
  obtain w where w: "rebuildBody ex_env (mutated ex_env ex_setx ex_mform) = Inr w"
    using rebuildBody_readable [OF o r] by auto
  have vals: "range_map (order_values ex_env) (Value (mutated ex_env ex_setx ex_mform))
                = [(''x'', [''1'']), (''b'', [''x''])]"
    by (simp add: ex_env_def ex_setx_def ex_mform_def mutated_def applyOpsToValues_def
        range_map_Nil range_map_Cons)
  have files: "range_map (order_files ex_env) (File (mutated ex_env ex_setx ex_mform))
                = [(''file'', [hello_fh])]"
    by (simp add: ex_env_def ex_mform_def mutated_def range_map_Nil range_map_Cons)
  have parts: "value_parts [(''x'', [''1'']), (''b'', [''x''])] @ file_parts [(''file'', [hello_fh])]
      = ex_parts"
    by (simp add: value_parts_def file_parts_def file_part_def file_content_def hello_fh_def
        ex_parts_def)
  have b: "randomBoundary ex_env = ex_boundary"
    by (simp add: ex_env_def)
  show ?thesis
    using rebuildBody_Inr [OF w] w by (simp add: vals files parts b ex_writer_def)
qed

lemma ex_parse_url:
  "ParseForm ex_env ex_req_url = (None, snd (parse_form_to [''b'' \<mapsto> [''x'']] ex_req_url))"
  by (simp add: ex_env_def parse_form_to_def)

lemma ex_parse_mp:
  "ParseMultipartForm ex_env 33554432 ex_req_mp = (None, snd (parse_multipart_to ex_mform 33554432 ex_req_mp))"
  "MultipartForm (snd (parse_multipart_to ex_mform 33554432 ex_req_mp)) = Some ex_mform"
  by (simp_all add: ex_env_def parse_multipart_to_def)



text \<open>
  C10. After a successful transformation on either path, every call of the installed
  replay function returns its reader together with the nil error.
\<close>

theorem C10_replay_never_fails:
  "(ParseForm env req = (None, req1) \<longrightarrow>
      (\<exists>g. GetBody (snd (handleURLEncoded env a rw req)) = Some g \<and> (\<forall>u. snd (g u) = None)))
   \<and> (ParseMultipartForm env 33554432 req = (None, req2) \<and> MultipartForm req2 = Some m
       \<and> rebuildBody env (mutated env a m) = Inr w \<longrightarrow>
      (\<exists>g. GetBody (snd (handleMultipart env a rw req)) = Some g \<and> (\<forall>u. snd (g u) = None)))"
proof (intro conjI impI)
  assume p: "ParseForm env req = (None, req1)"
  show "\<exists>g. GetBody (snd (handleURLEncoded env a rw req)) = Some g \<and> (\<forall>u. snd (g u) = None)"
    by (simp add: handleURLEncoded_parsed [OF p])
next
  assume h: "ParseMultipartForm env 33554432 req = (None, req2) \<and> MultipartForm req2 = Some m
       \<and> rebuildBody env (mutated env a m) = Inr w"
  have p: "ParseMultipartForm env 33554432 req = (None, req2)" and m: "MultipartForm req2 = Some m"
    and r: "rebuildBody env (mutated env a m) = Inr w"
    using h by simp_all
  show "\<exists>g. GetBody (snd (handleMultipart env a rw req)) = Some g \<and> (\<forall>u. snd (g u) = None)"
    by (simp add: handleMultipart_rebuilt [OF p m r])
qed

text \<open>The theorem at the two test requests of the repository.\<close>

theorem C10_replay_never_fails_witness:
  "fst (ParseForm ex_env ex_req_url) = None
   \<and> fst (ParseMultipartForm ex_env 33554432 ex_req_mp) = None
   \<and> MultipartForm (snd (ParseMultipartForm ex_env 33554432 ex_req_mp)) = Some ex_mform
   \<and> rebuildBody ex_env (mutated ex_env ex_setx ex_mform) = Inr ex_writer
   \<and> (\<exists>g. GetBody (snd (handleURLEncoded ex_env ex_setx ex_rw ex_req_url)) = Some g
         \<and> snd (g ()) = None)
   \<and> (\<exists>g. GetBody (snd (handleMultipart ex_env ex_setx ex_rw ex_req_mp)) = Some g
         \<and> snd (g ()) = None)"
proof -
  note t = C10_replay_never_fails [of ex_env ex_req_url _ ex_setx ex_rw, THEN conjunct1, rule_format, OF ex_parse_url]
  note s = C10_replay_never_fails [of ex_env ex_req_mp _ ex_setx ex_rw _ ex_mform ex_writer,
      THEN conjunct2, rule_format, OF conjI [OF ex_parse_mp(1) conjI [OF ex_parse_mp(2) ex_rebuild]]]
  have 1: "\<exists>g. GetBody (snd (handleURLEncoded ex_env ex_setx ex_rw ex_req_url)) = Some g
         \<and> snd (g ()) = None"
    using t by blast
  have 2: "\<exists>g. GetBody (snd (handleMultipart ex_env ex_setx ex_rw ex_req_mp)) = Some g
         \<and> snd (g ()) = None"
    using s by blast
  show ?thesis
    using 1 2 ex_rebuild ex_parse_url ex_parse_mp by simp
qed

text \<open>
  C9 (amended). After a successful rebuild the Content-Type header is
  \<open>multipart/form-data; boundary=\<close> followed by the boundary that the new writer drew
  at random, and that boundary is the one that separates and closes the parts of the new
  body. Nothing relates it to the boundary of the original request or to the content.
\<close>

theorem C9_content_type_new_boundary:
  assumes "ParseMultipartForm env 33554432 req = (None, req1)" and "MultipartForm req1 = Some m"
    and "rebuildBody env (mutated env a m) = Inr w"
  shows "Header_Get (Header (snd (handleMultipart env a rw req))) ''Content-Type''
           = ''multipart/form-data; boundary='' @ randomBoundary env
       \<and> ReadAll (Body (snd (handleMultipart env a rw req))) =
           multipart_bytes (randomBoundary env)
             (value_parts (range_map (order_values env) (Value (mutated env a m)))
              @ file_parts (range_map (order_files env) (File (mutated env a m))))"
proof -
  note w = rebuildBody_Inr [OF assms(3)]
  have b: "boundary w = randomBoundary env"
    by (subst w) simp
  have c: "buf w = multipart_bytes (randomBoundary env)
             (value_parts (range_map (order_values env) (Value (mutated env a m)))
              @ file_parts (range_map (order_files env) (File (mutated env a m))))"
    by (subst w) simp
  show ?thesis
    by (simp add: handleMultipart_rebuilt [OF assms] Header_Get_def Header_Set_def
        ReadAll_def NewReader_def b c)
qed

text \<open>The theorem at the multipart test request of the repository.\<close>

theorem C9_content_type_new_boundary_witness:
  "fst (ParseMultipartForm ex_env 33554432 ex_req_mp) = None
   \<and> MultipartForm (snd (ParseMultipartForm ex_env 33554432 ex_req_mp)) = Some ex_mform
   \<and> rebuildBody ex_env (mutated ex_env ex_setx ex_mform) = Inr ex_writer
   \<and> Header_Get (Header (snd (handleMultipart ex_env ex_setx ex_rw ex_req_mp))) ''Content-Type''
           = ''multipart/form-data; boundary='' @ ex_boundary"
proof -
  have b: "randomBoundary ex_env = ex_boundary"
    by (simp add: ex_env_def)
  show ?thesis
    using C9_content_type_new_boundary [OF ex_parse_mp ex_rebuild, of ex_rw]
      ex_parse_mp ex_rebuild
    by (simp add: b)
qed

text \<open>
  The claim as stated fails when the writer draws the boundary of the original request
  and the content holds it too: the new header is the old one, and the boundary is the
  value of the text field \<open>b\<close> and part of the file's content.
\<close>

theorem C9_boundary_clash_counterexample:
  "Header_Get (Header ex_req_clash) ''Content-Type'' = ''multipart/form-data; boundary='' @ ex_boundary
   \<and> fst (ParseMultipartForm ex_env_clash 33554432 ex_req_clash) = None
   \<and> fst (handleMultipart ex_env_clash ex_setx ex_rw ex_req_clash) = ex_rw
   \<and> Header_Get (Header (snd (handleMultipart ex_env_clash ex_setx ex_rw ex_req_clash))) ''Content-Type''
       = ''multipart/form-data; boundary='' @ ex_boundary
   \<and> randomBoundary ex_env_clash = ex_boundary
   \<and> form_value_at (snd (handleMultipart ex_env_clash ex_setx ex_rw ex_req_clash)) ''b''
       = Some [ex_boundary]
   \<and> ReadAll (Body (snd (handleMultipart ex_env_clash ex_setx ex_rw ex_req_clash)))
       = multipart_bytes ex_boundary
           [(field_header ''x'', ''1''), (field_header ''b'', ex_boundary),
            (file_header ''file'' ''hello.txt'', ''hello '' @ ex_boundary)]"
proof -
  have p: "ParseMultipartForm ex_env_clash 33554432 ex_req_clash
             = (None, snd (parse_multipart_to ex_mform_clash 33554432 ex_req_clash))"
    and m: "MultipartForm (snd (parse_multipart_to ex_mform_clash 33554432 ex_req_clash))
             = Some ex_mform_clash"
    by (simp_all add: ex_env_clash_def ex_env_def parse_multipart_to_def)
  have o: "set (order_files ex_env_clash) = dom (File (mutated ex_env_clash ex_setx ex_mform_clash))"
    by (simp add: ex_env_clash_def ex_env_def ex_mform_clash_def mutated_def)
  have r: "\<forall>fhs \<in> ran (File (mutated ex_env_clash ex_setx ex_mform_clash)). \<forall>fh \<in> set fhs. readable fh"
    by (simp add: ex_mform_clash_def mutated_def readable_def clash_fh_def)
  obtain w where w: "rebuildBody ex_env_clash (mutated ex_env_clash ex_setx ex_mform_clash) = Inr w"
    using rebuildBody_readable [OF o r] by auto
  have vals: "range_map (order_values ex_env_clash) (Value (mutated ex_env_clash ex_setx ex_mform_clash))
                = [(''x'', [''1'']), (''b'', [ex_boundary])]"
    by (simp add: ex_env_clash_def ex_env_def ex_setx_def ex_mform_clash_def mutated_def
        applyOpsToValues_def range_map_Nil range_map_Cons)
  have files: "range_map (order_files ex_env_clash) (File (mutated ex_env_clash ex_setx ex_mform_clash))
                = [(''file'', [clash_fh])]"
    by (simp add: ex_env_clash_def ex_env_def ex_mform_clash_def mutated_def range_map_Nil range_map_Cons)
  have parts: "value_parts [(''x'', [''1'']), (''b'', [ex_boundary])] @ file_parts [(''file'', [clash_fh])]
      = [(field_header ''x'', ''1''), (field_header ''b'', ex_boundary),
         (file_header ''file'' ''hello.txt'', ''hello '' @ ex_boundary)]"
    by (simp add: value_parts_def file_parts_def file_part_def file_content_def clash_fh_def)
  have b: "randomBoundary ex_env_clash = ex_boundary"
    by (simp add: ex_env_clash_def ex_env_def)
  have w': "w = \<lparr>buf = multipart_bytes ex_boundary
                   [(field_header ''x'', ''1''), (field_header ''b'', ex_boundary),
                    (file_header ''file'' ''hello.txt'', ''hello '' @ ex_boundary)],
                boundary = ex_boundary, lastpart = False\<rparr>"
    using rebuildBody_Inr [OF w] by (simp add: vals files parts b)
  note h = handleMultipart_rebuilt [OF p m w, of ex_rw]
  have 1: "Header_Get (Header ex_req_clash) ''Content-Type'' = ''multipart/form-data; boundary='' @ ex_boundary"
    by (simp add: ex_req_clash_def Header_Get_def)
  have 2: "fst (ParseMultipartForm ex_env_clash 33554432 ex_req_clash) = None"
    by (simp add: p)
  have 3: "fst (handleMultipart ex_env_clash ex_setx ex_rw ex_req_clash) = ex_rw"
    by (simp add: h)
  have 4: "Header_Get (Header (snd (handleMultipart ex_env_clash ex_setx ex_rw ex_req_clash))) ''Content-Type''
       = ''multipart/form-data; boundary='' @ ex_boundary"
    by (simp add: h w' Header_Get_def Header_Set_def)
  have 5: "form_value_at (snd (handleMultipart ex_env_clash ex_setx ex_rw ex_req_clash)) ''b''
       = Some [ex_boundary]"
  proof -
    have "form_value_at (snd (handleMultipart ex_env_clash ex_setx ex_rw ex_req_clash)) ''b''
            = Value (mutated ex_env_clash ex_setx ex_mform_clash) ''b''"
      by (simp add: h form_value_at_def)
    also have "\<dots> = Some [ex_boundary]"
      by (simp add: mutated_def applyOpsToValues_def ex_setx_def ex_env_clash_def
          ex_env_def ex_mform_clash_def range_map_Nil range_map_Cons)
    finally show ?thesis .
  qed
  have 6: "ReadAll (Body (snd (handleMultipart ex_env_clash ex_setx ex_rw ex_req_clash)))
       = multipart_bytes ex_boundary
           [(field_header ''x'', ''1''), (field_header ''b'', ex_boundary),
            (file_header ''file'' ''hello.txt'', ''hello '' @ ex_boundary)]"
    by (simp add: h w' ReadAll_def NewReader_def)
  show ?thesis
    using 1 2 3 4 5 6 b by simp
qed

section \<open>Claims about errors\<close>

lemma ex_lost_rebuild:
  "rebuildBody ex_env_lost (mutated ex_env_lost ex_setx ex_mform_lost)
     = Inl (Err ''open /tmp/multipart-1: too many open files'')"
proof -
  have files: "range_map (order_files ex_env_lost) (File (mutated ex_env_lost ex_setx ex_mform_lost))
                = [(''file'', [lost_fh])]"
    by (simp add: ex_env_lost_def ex_env_def ex_mform_lost_def mutated_def range_map_Nil range_map_Cons)
  show ?thesis
    by (simp add: rebuildBody_def writeValues_def writeValues_loop_eq writeFiles_def files lost_fh_def)
qed

lemma ex_lost_parse:
  "ParseMultipartForm ex_env_lost 33554432 ex_req_mp
     = (None, snd (parse_multipart_to ex_mform_lost 33554432 ex_req_mp))"
  "MultipartForm (snd (parse_multipart_to ex_mform_lost 33554432 ex_req_mp)) = Some ex_mform_lost"
  by (simp_all add: ex_env_lost_def ex_env_def parse_multipart_to_def)

lemma ex_fail_parse:
  "ParseForm ex_env_fail ex_req_url
     = (Some (Err ''invalid semicolon separator in query''), snd (parse_form_fails [] ex_req_url))"
  "ParseMultipartForm ex_env_fail 33554432 ex_req_mp
     = (Some (Err ''multipart: NextPart: EOF''), snd (parse_multipart_fails [] 33554432 ex_req_mp))"
  by (simp_all add: ex_env_fail_def parse_form_fails_def parse_multipart_fails_def)

text \<open>
  C3 (amended). Every error ends the transformation, and the mutation pass is never
  applied in part. After a parser error the handler assigns nothing: the request is as
  the parser left it. Once parsing has succeeded the whole pass runs on the request's
  form. On the URL-encoded path the new body always follows. On the multipart path a
  reconstruction error is reported with status 500 and leaves the body, the content
  length, the headers and the replay function as the parser left them, while the
  request's parsed form already holds the fully mutated text fields; without such an
  error the rebuilt body is installed.
\<close>

theorem C3_errors_terminal:
  "(ParseForm env req = (Some e, req1) \<longrightarrow>
      handleURLEncoded env a rw req = (http_Error rw (Error e) 400, req1))
   \<and> (ParseForm env req = (None, req1) \<longrightarrow>
      fst (handleURLEncoded env a rw req) = rw
      \<and> PostForm (snd (handleURLEncoded env a rw req))
          = mutateForm a (order_set env) (order_append env) (PostForm req1)
      \<and> ReadAll (Body (snd (handleURLEncoded env a rw req)))
          = Values_Encode (order_encode env) (PostForm (snd (handleURLEncoded env a rw req))))
   \<and> (ParseMultipartForm env 33554432 req = (Some e, req2) \<longrightarrow>
      handleMultipart env a rw req = (http_Error rw (Error e) 400, req2))
   \<and> (ParseMultipartForm env 33554432 req = (None, req2) \<and> MultipartForm req2 = Some m
       \<and> rebuildBody env (mutated env a m) = Inl e \<longrightarrow>
      handleMultipart env a rw req
        = (http_Error rw (Error e) 500, req2\<lparr>MultipartForm := Some (mutated env a m)\<rparr>))
   \<and> (ParseMultipartForm env 33554432 req = (None, req2) \<and> MultipartForm req2 = Some m
       \<and> rebuildBody env (mutated env a m) = Inr w \<longrightarrow>
      fst (handleMultipart env a rw req) = rw
      \<and> MultipartForm (snd (handleMultipart env a rw req)) = Some (mutated env a m)
      \<and> ReadAll (Body (snd (handleMultipart env a rw req))) = buf w)"
proof (intro conjI impI)
  assume "ParseForm env req = (Some e, req1)"
  then show "handleURLEncoded env a rw req = (http_Error rw (Error e) 400, req1)"
    by (simp add: handleURLEncoded_parse_error StatusBadRequest_def)
next
  assume p: "ParseForm env req = (None, req1)"
  show "fst (handleURLEncoded env a rw req) = rw"
    by (simp add: handleURLEncoded_parsed [OF p])
  show "PostForm (snd (handleURLEncoded env a rw req))
          = mutateForm a (order_set env) (order_append env) (PostForm req1)"
    by (simp add: handleURLEncoded_parsed [OF p])
  show "ReadAll (Body (snd (handleURLEncoded env a rw req)))
          = Values_Encode (order_encode env) (PostForm (snd (handleURLEncoded env a rw req)))"
    by (simp add: handleURLEncoded_parsed [OF p] ReadAll_def NewReader_def)
next
  assume "ParseMultipartForm env 33554432 req = (Some e, req2)"
  then show "handleMultipart env a rw req = (http_Error rw (Error e) 400, req2)"
    by (simp add: handleMultipart_parse_error StatusBadRequest_def)
next
  assume "ParseMultipartForm env 33554432 req = (None, req2) \<and> MultipartForm req2 = Some m
       \<and> rebuildBody env (mutated env a m) = Inl e"
  then show "handleMultipart env a rw req
        = (http_Error rw (Error e) 500, req2\<lparr>MultipartForm := Some (mutated env a m)\<rparr>)"
    by (simp add: handleMultipart_rebuild_error StatusInternalServerError_def)
next
  assume h: "ParseMultipartForm env 33554432 req = (None, req2) \<and> MultipartForm req2 = Some m
       \<and> rebuildBody env (mutated env a m) = Inr w"
  have p: "ParseMultipartForm env 33554432 req = (None, req2)" and m: "MultipartForm req2 = Some m"
    and r: "rebuildBody env (mutated env a m) = Inr w"
    using h by simp_all
  note g = handleMultipart_rebuilt [OF p m r]
  show "fst (handleMultipart env a rw req) = rw"
    by (simp add: g)
  show "MultipartForm (snd (handleMultipart env a rw req)) = Some (mutated env a m)"
    by (simp add: g)
  show "ReadAll (Body (snd (handleMultipart env a rw req))) = buf w"
    by (simp add: g ReadAll_def NewReader_def)
qed

text \<open>
  The theorem on its five branches: both parsers failing, both succeeding, and the
  multipart rebuild stopped by a file that cannot be opened.
\<close>

theorem C3_errors_terminal_witness:
  "fst (ParseForm ex_env_fail ex_req_url) = Some (Err ''invalid semicolon separator in query'')
   \<and> handleURLEncoded ex_env_fail ex_setx ex_rw ex_req_url
       = (http_Error ex_rw ''invalid semicolon separator in query'' 400,
          snd (parse_form_fails [] ex_req_url))
   \<and> fst (ParseForm ex_env ex_req_url) = None
   \<and> fst (handleURLEncoded ex_env ex_setx ex_rw ex_req_url) = ex_rw
   \<and> fst (ParseMultipartForm ex_env_fail 33554432 ex_req_mp) = Some (Err ''multipart: NextPart: EOF'')
   \<and> handleMultipart ex_env_fail ex_setx ex_rw ex_req_mp
       = (http_Error ex_rw ''multipart: NextPart: EOF'' 400,
          snd (parse_multipart_fails [] 33554432 ex_req_mp))
   \<and> fst (ParseMultipartForm ex_env_lost 33554432 ex_req_mp) = None
   \<and> MultipartForm (snd (ParseMultipartForm ex_env_lost 33554432 ex_req_mp)) = Some ex_mform_lost
   \<and> rebuildBody ex_env_lost (mutated ex_env_lost ex_setx ex_mform_lost)
       = Inl (Err ''open /tmp/multipart-1: too many open files'')
   \<and> handleMultipart ex_env_lost ex_setx ex_rw ex_req_mp
       = (http_Error ex_rw ''open /tmp/multipart-1: too many open files'' 500,
          (snd (parse_multipart_to ex_mform_lost 33554432 ex_req_mp))
            \<lparr>MultipartForm := Some (mutated ex_env_lost ex_setx ex_mform_lost)\<rparr>)
   \<and> fst (ParseMultipartForm ex_env 33554432 ex_req_mp) = None
   \<and> MultipartForm (snd (ParseMultipartForm ex_env 33554432 ex_req_mp)) = Some ex_mform
   \<and> rebuildBody ex_env (mutated ex_env ex_setx ex_mform) = Inr ex_writer
   \<and> ReadAll (Body (snd (handleMultipart ex_env ex_setx ex_rw ex_req_mp))) = buf ex_writer"
proof -
  note t = C3_errors_terminal [where a = ex_setx and rw = ex_rw]
  have 1: "handleURLEncoded ex_env_fail ex_setx ex_rw ex_req_url
       = (http_Error ex_rw ''invalid semicolon separator in query'' 400,
          snd (parse_form_fails [] ex_req_url))"
    using t [where env = ex_env_fail and req = ex_req_url
        and e = "Err ''invalid semicolon separator in query''"
        and ?req1.0 = "snd (parse_form_fails [] ex_req_url)"] ex_fail_parse(1) by simp
  have 2: "fst (handleURLEncoded ex_env ex_setx ex_rw ex_req_url) = ex_rw"
    using t [where env = ex_env and req = ex_req_url
        and ?req1.0 = "snd (parse_form_to [''b'' \<mapsto> [''x'']] ex_req_url)"]
      ex_parse_url by simp
  have 3: "handleMultipart ex_env_fail ex_setx ex_rw ex_req_mp
       = (http_Error ex_rw ''multipart: NextPart: EOF'' 400,
          snd (parse_multipart_fails [] 33554432 ex_req_mp))"
    using t [where env = ex_env_fail and req = ex_req_mp and e = "Err ''multipart: NextPart: EOF''"
        and ?req2.0 = "snd (parse_multipart_fails [] 33554432 ex_req_mp)"] ex_fail_parse(2) by simp
  have 4: "handleMultipart ex_env_lost ex_setx ex_rw ex_req_mp
       = (http_Error ex_rw ''open /tmp/multipart-1: too many open files'' 500,
          (snd (parse_multipart_to ex_mform_lost 33554432 ex_req_mp))
            \<lparr>MultipartForm := Some (mutated ex_env_lost ex_setx ex_mform_lost)\<rparr>)"
    using t [where env = ex_env_lost and req = ex_req_mp
        and e = "Err ''open /tmp/multipart-1: too many open files''"
        and ?req2.0 = "snd (parse_multipart_to ex_mform_lost 33554432 ex_req_mp)"
        and m = ex_mform_lost]
      ex_lost_parse ex_lost_rebuild by simp
  have 5: "ReadAll (Body (snd (handleMultipart ex_env ex_setx ex_rw ex_req_mp))) = buf ex_writer"
    using t [where env = ex_env and req = ex_req_mp
        and ?req2.0 = "snd (parse_multipart_to ex_mform 33554432 ex_req_mp)"
        and m = ex_mform and w = ex_writer]
      ex_parse_mp ex_rebuild by simp
  show ?thesis
    using 1 2 3 4 5 ex_fail_parse ex_parse_url ex_parse_mp ex_lost_parse ex_lost_rebuild ex_rebuild
    by simp
qed

text \<open>
  The claim as stated fails on the multipart path: the file cannot be opened, the
  reconstruction error is reported with status 500, and the request's form holds the
  field \<open>x\<close> that the pass has set, which the parsed form did not have.
\<close>

theorem C3_rebuild_error_counterexample:
  "fst (ParseMultipartForm ex_env_lost 33554432 ex_req_mp) = None
   \<and> form_value_at (snd (ParseMultipartForm ex_env_lost 33554432 ex_req_mp)) ''x'' = None
   \<and> rw_Code (fst (handleMultipart ex_env_lost ex_setx ex_rw ex_req_mp)) = Some 500
   \<and> rw_Body (fst (handleMultipart ex_env_lost ex_setx ex_rw ex_req_mp))
       = ''open /tmp/multipart-1: too many open files'' @ [CHR 0x0A]
   \<and> form_value_at (snd (handleMultipart ex_env_lost ex_setx ex_rw ex_req_mp)) ''x'' = Some [''1'']
   \<and> Body (snd (handleMultipart ex_env_lost ex_setx ex_rw ex_req_mp))
       = Body (snd (ParseMultipartForm ex_env_lost 33554432 ex_req_mp))"
proof -
  note h = handleMultipart_rebuild_error [OF ex_lost_parse ex_lost_rebuild, of ex_rw]
  have 1: "form_value_at (snd (ParseMultipartForm ex_env_lost 33554432 ex_req_mp)) ''x'' = None"
  proof -
    have "form_value_at (snd (ParseMultipartForm ex_env_lost 33554432 ex_req_mp)) ''x''
            = Value ex_mform_lost ''x''"
      by (simp add: ex_lost_parse form_value_at_def)
    then show ?thesis
      by (simp add: ex_mform_lost_def)
  qed
  have c: "rw_Code ex_rw = None" and b: "rw_Body ex_rw = []"
    by (simp_all add: ex_rw_def)
  have 2: "rw_Code (fst (handleMultipart ex_env_lost ex_setx ex_rw ex_req_mp)) = Some 500"
    and 3: "rw_Body (fst (handleMultipart ex_env_lost ex_setx ex_rw ex_req_mp))
       = ''open /tmp/multipart-1: too many open files'' @ [CHR 0x0A]"
    using http_Error_fresh [OF c, of "''open /tmp/multipart-1: too many open files''" 500]
    by (simp_all add: h b StatusInternalServerError_def)
  have "form_value_at (snd (handleMultipart ex_env_lost ex_setx ex_rw ex_req_mp)) ''x''
          = Value (mutated ex_env_lost ex_setx ex_mform_lost) ''x''"
    by (simp add: h form_value_at_def)
  also have "\<dots> = Some [''1'']"
    by (simp add: mutated_def applyOpsToValues_def ex_setx_def ex_env_lost_def ex_env_def
        range_map_Nil range_map_Cons)
  finally have 4: "form_value_at (snd (handleMultipart ex_env_lost ex_setx ex_rw ex_req_mp)) ''x''
          = Some [''1'']" .
  have 5: "Body (snd (handleMultipart ex_env_lost ex_setx ex_rw ex_req_mp))
       = Body (snd (ParseMultipartForm ex_env_lost 33554432 ex_req_mp))"
    by (simp add: h ex_lost_parse)
  show ?thesis
    using 1 2 3 4 5 ex_lost_parse by simp
qed

section \<open>Claims about the re-encoded body\<close>

lemma join_amp_Cons: "join_amp (p # ps) = (if ps = [] then p else p @ ''&'' @ join_amp ps)"
  by (cases ps) simp_all

lemma fold_amp:
  assumes "\<forall>p \<in> set ps. p \<noteq> []"
  shows "fold (\<lambda>p acc. (if length acc > 0 then acc @ ''&'' else acc) @ p) ps acc =
     (if ps = [] then acc else if acc = [] then join_amp ps else acc @ ''&'' @ join_amp ps)"
  using assms
proof (induction ps arbitrary: acc)
  case Nil
  then show ?case by simp
next
  case (Cons p ps)
  then have p: "p \<noteq> []" and rest: "\<forall>p \<in> set ps. p \<noteq> []" by simp_all
  let ?acc = "(if length acc > 0 then acc @ ''&'' else acc) @ p"
  have ne: "?acc \<noteq> []" using p by simp
  have "fold (\<lambda>p acc. (if length acc > 0 then acc @ ''&'' else acc) @ p) (p # ps) acc =
        fold (\<lambda>p acc. (if length acc > 0 then acc @ ''&'' else acc) @ p) ps ?acc"
    by simp
  also have "\<dots> = (if ps = [] then ?acc else ?acc @ ''&'' @ join_amp ps)"
    unfolding Cons.IH [OF rest] using ne by presburger
  also have "\<dots> = (if acc = [] then join_amp (p # ps) else acc @ ''&'' @ join_amp (p # ps))"
    by (simp add: join_amp_Cons)
  finally show ?case by simp
qed

lemma fold_fold_concat: "fold (\<lambda>x. fold f (g x)) xs acc = fold f (concat (map g xs)) acc"
  by (induction xs arbitrary: acc) simp_all

lemma Values_Encode_eq:
  "Values_Encode ks v = join_amp (encoded_pairs (sort ks) v)"
proof -
  let ?step = "\<lambda>p acc. (if length acc > 0 then acc @ ''&'' else acc) @ p"
  have inner: "(\<lambda>k acc. let vs = index_map v k; keyEscaped = QueryEscape k
                  in fold (\<lambda>v acc. (if length acc > 0 then acc @ ''&'' else acc)
                                 @ keyEscaped @ ''='' @ QueryEscape v) vs acc)
        = (\<lambda>k. fold ?step (map (\<lambda>val. QueryEscape k @ ''='' @ QueryEscape val) (index_map v k)))"
    by (simp add: fun_eq_iff Let_def fold_map comp_def)
  have ne: "\<forall>p \<in> set (encoded_pairs (sort ks) v). p \<noteq> []"
    by (auto simp: encoded_pairs_def)
  have "Values_Encode ks v = (if ks = [] then [] else fold ?step (encoded_pairs (sort ks) v) [])"
    unfolding Values_Encode_def inner
    by (simp add: encoded_pairs_def fold_fold_concat)
  also have "\<dots> = join_amp (encoded_pairs (sort ks) v)"
  proof (cases "ks = []")
    case True
    then show ?thesis by (simp add: encoded_pairs_def)
  next
    case False
    have "fold ?step (encoded_pairs (sort ks) v) [] = join_amp (encoded_pairs (sort ks) v)"
      unfolding fold_amp [OF ne, of "[]"] by auto
    with False show ?thesis by simp
  qed
  finally show ?thesis .
qed

lemma sort_iteration_order:
  "iteration_order ks m \<Longrightarrow> sort ks = sorted_list_of_set (dom m)"
  by (metis iteration_order_def sorted_list_of_set_sort_remdups distinct_remdups_id)


lemma upperhex_digits: "list_all (\<lambda>n. \<not> shouldEscape (upperhex n)) [0..<16]"
  by (simp add: upt_rec [of _ "numeral k" for k] upperhex_def shouldEscape_def)

lemma upperhex_unreserved:
  assumes "n < 16"
  shows "\<not> shouldEscape (upperhex n)"
  using upperhex_digits assms by (simp add: list_all_iff)

lemma of_char_div_16: "(of_char c :: nat) div 16 < 16"
proof -
  have "(of_char c :: nat) < 256"
    by (rule nat_of_char_less_256)
  then show ?thesis by arith
qed

lemma escape_byte_safe:
  "x \<in> set (escape_byte c) \<Longrightarrow> \<not> shouldEscape x \<or> x = CHR ''+'' \<or> x = CHR ''%''"
  using upperhex_unreserved [OF of_char_div_16 [of c]]
    upperhex_unreserved [of "(of_char c :: nat) mod 16"]
  by (auto simp: escape_byte_def split: if_splits)

lemma QueryEscape_safe:
  "x \<in> set (QueryEscape s) \<Longrightarrow> \<not> shouldEscape x \<or> x = CHR ''+'' \<or> x = CHR ''%''"
  using escape_byte_safe by (auto simp: QueryEscape_def)

text \<open>
  C6. After a successful parse the new body is the \<open>key=value\<close> pairs of the mutated
  form joined by \<open>&\<close>: the keys in ascending byte order, each key once, the values of a
  key in the order of its sequence in the mutated form, which is the order the mutation
  pass produced (prior values first, the appended value last). Keys and values are
  written through \<open>QueryEscape\<close>, whose output holds only unreserved bytes, \<open>+\<close> and
  \<open>%\<close>. The content length is the number of bytes of the new body.
\<close>

theorem C6_reencoded_body:
  assumes "ParseForm env req = (None, req1)"
    and "iteration_order (order_set env) (set_fd a)"
    and "iteration_order (order_append env) (appendTo a)"
    and "iteration_order (order_encode env) (PostForm (snd (handleURLEncoded env a rw req)))"
  shows "ReadAll (Body (snd (handleURLEncoded env a rw req))) =
           join_amp (encoded_pairs
             (sorted_list_of_set (dom (PostForm (snd (handleURLEncoded env a rw req)))))
             (PostForm (snd (handleURLEncoded env a rw req))))
       \<and> (\<forall>k. PostForm (snd (handleURLEncoded env a rw req)) k = after_pass a (PostForm req1) k)
       \<and> ContentLength (snd (handleURLEncoded env a rw req))
           = int (length (ReadAll (Body (snd (handleURLEncoded env a rw req)))))
       \<and> (\<forall>s. \<forall>c \<in> set (QueryEscape s). \<not> shouldEscape c \<or> c = CHR ''+'' \<or> c = CHR ''%'')"
proof -
  note h = handleURLEncoded_parsed [OF assms(1), of a rw]
  let ?form = "mutateForm a (order_set env) (order_append env) (PostForm req1)"
  have f: "PostForm (snd (handleURLEncoded env a rw req)) = ?form"
    by (simp add: h)
  have o: "iteration_order (order_encode env) ?form"
    using assms(4) by (simp only: f)
  have 1: "ReadAll (Body (snd (handleURLEncoded env a rw req))) =
             join_amp (encoded_pairs (sorted_list_of_set (dom ?form)) ?form)"
    by (simp add: h ReadAll_def NewReader_def Values_Encode_eq sort_iteration_order [OF o])
  have 2: "\<forall>k. ?form k = after_pass a (PostForm req1) k"
    by (simp add: mutateForm_eq applyOpsToValues_lookup [OF assms(2,3)])
  have 3: "ContentLength (snd (handleURLEncoded env a rw req))
           = int (length (ReadAll (Body (snd (handleURLEncoded env a rw req)))))"
    by (simp add: h ReadAll_def NewReader_def)
  show ?thesis
    using 1 2 3 QueryEscape_safe by (simp only: f) blast
qed

lemma ex_a_parse:
  "ParseForm ex_env_a ex_req_url = (None, snd (parse_form_to ex_form ex_req_url))"
  by (simp add: ex_env_a_def parse_form_to_def)

lemma ex_a_form:
  "mutateForm ex_a (order_set ex_env_a) (order_append ex_env_a) ex_form
     = [''b'' \<mapsto> [''y'', ''w''], ''c'' \<mapsto> [''z''], ''d'' \<mapsto> [''q'']]"
  by (rule ext)
    (simp add: mutateForm_def ex_a_def ex_env_a_def ex_form_def range_map_Nil range_map_Cons
      Values_Del_def Values_Set_def Values_Add_def index_map_def)

text \<open>
  The theorem at the repository's URL-encoded test: the body \<open>a=1&a=2&b=x\<close> becomes
  \<open>b=y&b=w&c=z&d=q\<close>, fifteen bytes. A string with a space, an ampersand and an equals sign
  shows the escaping.
\<close>

theorem C6_reencoded_body_witness:
  "fst (ParseForm ex_env_a ex_req_url) = None
   \<and> iteration_order (order_set ex_env_a) (set_fd ex_a)
   \<and> iteration_order (order_append ex_env_a) (appendTo ex_a)
   \<and> iteration_order (order_encode ex_env_a) (PostForm (snd (handleURLEncoded ex_env_a ex_a ex_rw ex_req_url)))
   \<and> ReadAll (Body (snd (handleURLEncoded ex_env_a ex_a ex_rw ex_req_url))) = ''b=y&b=w&c=z&d=q''
   \<and> join_amp (encoded_pairs
             (sorted_list_of_set (dom (PostForm (snd (handleURLEncoded ex_env_a ex_a ex_rw ex_req_url)))))
             (PostForm (snd (handleURLEncoded ex_env_a ex_a ex_rw ex_req_url)))) = ''b=y&b=w&c=z&d=q''
   \<and> ContentLength (snd (handleURLEncoded ex_env_a ex_a ex_rw ex_req_url)) = 15
   \<and> QueryEscape ''a b&c=d'' = ''a+b%26c%3Dd''"
proof -
  have f: "PostForm (snd (handleURLEncoded ex_env_a ex_a ex_rw ex_req_url))
             = [''b'' \<mapsto> [''y'', ''w''], ''c'' \<mapsto> [''z''], ''d'' \<mapsto> [''q'']]"
    by (simp add: handleURLEncoded_parsed [OF ex_a_parse] parse_form_to_def ex_a_form)
  have h1: "iteration_order (order_set ex_env_a) (set_fd ex_a)"
    and h2: "iteration_order (order_append ex_env_a) (appendTo ex_a)"
    by (auto simp: iteration_order_def ex_env_a_def ex_a_def)
  have h3: "iteration_order (order_encode ex_env_a) (PostForm (snd (handleURLEncoded ex_env_a ex_a ex_rw ex_req_url)))"
    unfolding f by (auto simp: iteration_order_def ex_env_a_def)
  note t = C6_reencoded_body [OF ex_a_parse h1 h2 h3]
  have s: "sort (order_encode ex_env_a) = [''b'', ''c'', ''d'']"
    by (simp add: ex_env_a_def)
  have b: "ReadAll (Body (snd (handleURLEncoded ex_env_a ex_a ex_rw ex_req_url))) = ''b=y&b=w&c=z&d=q''"
    by (simp add: handleURLEncoded_parsed [OF ex_a_parse] parse_form_to_def ex_a_form
        ReadAll_def NewReader_def Values_Encode_eq s encoded_pairs_def index_map_def
        QueryEscape_def escape_byte_def shouldEscape_def)
  have q: "QueryEscape ''a b&c=d'' = ''a+b%26c%3Dd''"
    by (simp add: QueryEscape_def escape_byte_def shouldEscape_def upperhex_def)
  have j: "join_amp (encoded_pairs
             (sorted_list_of_set (dom (PostForm (snd (handleURLEncoded ex_env_a ex_a ex_rw ex_req_url)))))
             (PostForm (snd (handleURLEncoded ex_env_a ex_a ex_rw ex_req_url)))) = ''b=y&b=w&c=z&d=q''"
    using t b by simp
  have l: "ContentLength (snd (handleURLEncoded ex_env_a ex_a ex_rw ex_req_url)) = 15"
    using t b by simp
  have p: "fst (ParseForm ex_env_a ex_req_url) = None"
    by (simp add: ex_a_parse)
  from p h1 h2 h3 b j l q show ?thesis
    by (intro conjI)
qed

section \<open>Claims about the file parts\<close>

lemma escapeQuotes_plain: "plain_name s \<Longrightarrow> escapeQuotes s = s"
  by (induction s) (auto simp: plain_name_def escapeQuotes_def)

lemma file_parts_uploaded:
  "file_parts kfs = map (\<lambda>(field, filename, content). (file_header field filename, content))
                        (uploaded_files kfs)"
  by (induction kfs) (auto simp: file_parts_def uploaded_files_def file_part_def)

lemma parts_bytes_files_text:
  "parts_bytes b started
     (map (\<lambda>(field, filename, content). (file_header field filename, content)) us)
   = files_text b started (map quoted_names us)"
proof (induction us arbitrary: started)
  case Nil
  then show ?case by simp
next
  case (Cons u us)
  obtain field filename content where u: "u = (field, filename, content)"
    by (cases u)
  show ?case
    by (simp add: u Cons.IH header_lines_file quoted_names_def)
qed

lemma quoted_names_plain:
  assumes "\<forall>(field, filename, content) \<in> set us. plain_name field \<and> plain_name filename"
  shows "map quoted_names us = us"
proof -
  have "quoted_names u = u" if "u \<in> set us" for u
    using assms that by (cases u) (auto simp: quoted_names_def escapeQuotes_plain)
  then show ?thesis
    by (simp add: map_idI)
qed

lemma set_uploaded_files:
  assumes "set ks = dom files"
  shows "set (uploaded_files (range_map ks files)) =
           {(field, Filename fh, file_content fh) | field fhs fh.
              files field = Some fhs \<and> fh \<in> set fhs}"
  by (auto simp: uploaded_files_def set_range_map [OF assms])

lemma handleMultipart_body_text:
  assumes "ParseMultipartForm env 33554432 req = (None, req1)" and "MultipartForm req1 = Some m"
    and "set (order_files env) = dom (File m)"
    and "\<forall>fhs \<in> ran (File m). \<forall>fh \<in> set fhs. readable fh"
  shows "fst (handleMultipart env a rw req) = rw
       \<and> ReadAll (Body (snd (handleMultipart env a rw req))) =
           parts_bytes (randomBoundary env) False
             (value_parts (range_map (order_values env) (Value (mutated env a m))))
           @ files_text (randomBoundary env)
               (value_parts (range_map (order_values env) (Value (mutated env a m))) \<noteq> [])
               (map quoted_names (uploaded_files (range_map (order_files env) (File m))))
           @ CRLF @ ''--'' @ randomBoundary env @ ''--'' @ CRLF"
proof -
  have files: "File (mutated env a m) = File m"
    by (simp add: mutated_def)
  obtain w where w: "rebuildBody env (mutated env a m) = Inr w"
    and b: "buf w = multipart_bytes (randomBoundary env)
                  (value_parts (range_map (order_values env) (Value (mutated env a m)))
                   @ file_parts (range_map (order_files env) (File m)))"
    using rebuildBody_readable [of env "mutated env a m"] assms(3,4) files by auto
  note h = handleMultipart_rebuilt [OF assms(1,2) w]
  have "ReadAll (Body (snd (handleMultipart env a rw req))) = buf w"
    by (simp add: h ReadAll_def NewReader_def)
  also have "\<dots> = parts_bytes (randomBoundary env) False
             (value_parts (range_map (order_values env) (Value (mutated env a m))))
           @ files_text (randomBoundary env)
               (value_parts (range_map (order_values env) (Value (mutated env a m))) \<noteq> [])
               (map quoted_names (uploaded_files (range_map (order_files env) (File m))))
           @ CRLF @ ''--'' @ randomBoundary env @ ''--'' @ CRLF"
    by (simp add: b multipart_bytes_def parts_bytes_append file_parts_uploaded
        parts_bytes_files_text)
  finally show ?thesis
    by (simp add: h)
qed

lemma ex_values_bytes:
  "parts_bytes ex_boundary False (value_parts [(''x'', [''1'']), (''b'', [''x''])]) = ex_values_text"
  by (simp add: value_parts_def header_lines_field escapeQuotes_def ex_values_text_def)

text \<open>
  C4 (amended). The input is the form that the parser delivers. When every uploaded
  file of it can be opened and read to its end, the rebuild succeeds and the new body is
  the mutated text fields, then one file part for every uploaded file of the form, field
  by field in the order the map is visited and within a field in the form's order, then
  the closing boundary. The content of each part is the whole content of its file,
  byte for byte. Its Content-Disposition line carries the field name and the file name
  through the writer's quoting. A name without backslash, double quote, carriage return
  and line feed is written as it is, so when all names are such the file parts hold
  field names, file names and contents bit-identical to the form's. The mutation pass
  leaves the form's files as they were parsed.
\<close>

theorem C4_file_parts_written:
  assumes "ParseMultipartForm env 33554432 req = (None, req1)" and "MultipartForm req1 = Some m"
    and "iteration_order (order_files env) (File m)"
    and "\<forall>fhs \<in> ran (File m). \<forall>fh \<in> set fhs. readable fh"
  shows "fst (handleMultipart env a rw req) = rw
       \<and> ReadAll (Body (snd (handleMultipart env a rw req))) =
           parts_bytes (randomBoundary env) False
             (value_parts (range_map (order_values env) (Value (mutated env a m))))
           @ files_text (randomBoundary env)
               (value_parts (range_map (order_values env) (Value (mutated env a m))) \<noteq> [])
               (map quoted_names (uploaded_files (range_map (order_files env) (File m))))
           @ CRLF @ ''--'' @ randomBoundary env @ ''--'' @ CRLF
       \<and> ((\<forall>(field, filename, content) \<in> set (uploaded_files (range_map (order_files env) (File m))).
              plain_name field \<and> plain_name filename) \<longrightarrow>
           ReadAll (Body (snd (handleMultipart env a rw req))) =
             parts_bytes (randomBoundary env) False
               (value_parts (range_map (order_values env) (Value (mutated env a m))))
             @ files_text (randomBoundary env)
                 (value_parts (range_map (order_values env) (Value (mutated env a m))) \<noteq> [])
                 (uploaded_files (range_map (order_files env) (File m)))
             @ CRLF @ ''--'' @ randomBoundary env @ ''--'' @ CRLF)
       \<and> set (uploaded_files (range_map (order_files env) (File m))) =
           {(field, Filename fh, file_content fh) | field fhs fh.
              File m field = Some fhs \<and> fh \<in> set fhs}
       \<and> map_option File (MultipartForm (snd (handleMultipart env a rw req))) = Some (File m)"
proof -
  have dom: "set (order_files env) = dom (File m)"
    using assms(3) by (simp add: iteration_order_def)
  note t = handleMultipart_body_text [OF assms(1,2) dom assms(4), of a rw]
  have 1: "fst (handleMultipart env a rw req) = rw"
    using t by simp
  have 2: "ReadAll (Body (snd (handleMultipart env a rw req))) =
           parts_bytes (randomBoundary env) False
             (value_parts (range_map (order_values env) (Value (mutated env a m))))
           @ files_text (randomBoundary env)
               (value_parts (range_map (order_values env) (Value (mutated env a m))) \<noteq> [])
               (map quoted_names (uploaded_files (range_map (order_files env) (File m))))
           @ CRLF @ ''--'' @ randomBoundary env @ ''--'' @ CRLF"
    using t by simp
  have 3: "ReadAll (Body (snd (handleMultipart env a rw req))) =
             parts_bytes (randomBoundary env) False
               (value_parts (range_map (order_values env) (Value (mutated env a m))))
             @ files_text (randomBoundary env)
                 (value_parts (range_map (order_values env) (Value (mutated env a m))) \<noteq> [])
                 (uploaded_files (range_map (order_files env) (File m)))
             @ CRLF @ ''--'' @ randomBoundary env @ ''--'' @ CRLF"
    if "\<forall>(field, filename, content) \<in> set (uploaded_files (range_map (order_files env) (File m))).
              plain_name field \<and> plain_name filename"
    using 2 by (simp only: quoted_names_plain [OF that])
  have 4: "set (uploaded_files (range_map (order_files env) (File m))) =
           {(field, Filename fh, file_content fh) | field fhs fh.
              File m field = Some fhs \<and> fh \<in> set fhs}"
    by (rule set_uploaded_files [OF dom])
  have 5: "map_option File (MultipartForm (snd (handleMultipart env a rw req))) = Some (File m)"
  proof -
    obtain w where w: "rebuildBody env (mutated env a m) = Inr w"
      using rebuildBody_readable [of env "mutated env a m"] dom assms(4)
      by (auto simp: mutated_def)
    show ?thesis
      by (simp add: handleMultipart_rebuilt [OF assms(1,2) w] mutated_def)
  qed
  from 1 2 3 4 5 show ?thesis
    by blast
qed

text \<open>
  The theorem at the form of the repository's file test, one text field and the file
  \<open>hello.txt\<close>: the new body, byte for byte.
\<close>

theorem C4_file_parts_written_witness:
  "fst (ParseMultipartForm ex_env 33554432 ex_req_mp) = None
   \<and> MultipartForm (snd (ParseMultipartForm ex_env 33554432 ex_req_mp)) = Some ex_mform
   \<and> iteration_order (order_files ex_env) (File ex_mform)
   \<and> ran (File ex_mform) = {[hello_fh]} \<and> readable hello_fh
   \<and> uploaded_files (range_map (order_files ex_env) (File ex_mform))
       = [(''file'', ''hello.txt'', ''hello world'')]
   \<and> plain_name ''file'' \<and> plain_name ''hello.txt''
   \<and> fst (handleMultipart ex_env ex_setx ex_rw ex_req_mp) = ex_rw
   \<and> ReadAll (Body (snd (handleMultipart ex_env ex_setx ex_rw ex_req_mp))) = ex_rebuilt_body"
proof -
  have o: "iteration_order (order_files ex_env) (File ex_mform)"
    by (simp add: iteration_order_def ex_env_def ex_mform_def)
  have r: "\<forall>fhs \<in> ran (File ex_mform). \<forall>fh \<in> set fhs. readable fh"
    by (simp add: ex_mform_def readable_def hello_fh_def)
  have r': "ran (File ex_mform) = {[hello_fh]}" and r'': "readable hello_fh"
    by (simp_all add: ex_mform_def readable_def hello_fh_def)
  have vals: "range_map (order_values ex_env) (Value (mutated ex_env ex_setx ex_mform))
                = [(''x'', [''1'']), (''b'', [''x''])]"
    by (simp add: ex_env_def ex_setx_def ex_mform_def mutated_def applyOpsToValues_def
        range_map_Nil range_map_Cons)
  have ne: "value_parts [(''x'', [''1'']), (''b'', [''x''])] \<noteq> []"
    by (simp add: value_parts_def)
  have files: "range_map (order_files ex_env) (File ex_mform) = [(''file'', [hello_fh])]"
    by (simp add: ex_env_def ex_mform_def range_map_Nil range_map_Cons)
  have u: "uploaded_files (range_map (order_files ex_env) (File ex_mform))
       = [(''file'', ''hello.txt'', ''hello world'')]"
    by (simp add: files uploaded_files_def file_content_def hello_fh_def)
  have pl: "plain_name ''file''" "plain_name ''hello.txt''"
    by (simp_all add: plain_name_def)
  have b: "randomBoundary ex_env = ex_boundary"
    by (simp add: ex_env_def)
  note t = C4_file_parts_written [OF ex_parse_mp o r, of ex_setx ex_rw]
  have 1: "fst (handleMultipart ex_env ex_setx ex_rw ex_req_mp) = ex_rw"
    using t by simp
  have pl': "\<forall>(field, filename, content)
                \<in> set (uploaded_files (range_map (order_files ex_env) (File ex_mform))).
              plain_name field \<and> plain_name filename"
    using pl by (simp add: u)
  note t3 = mp [OF t [THEN conjunct2, THEN conjunct2, THEN conjunct1] pl']
  have "ReadAll (Body (snd (handleMultipart ex_env ex_setx ex_rw ex_req_mp))) =
          ex_values_text
          @ files_text ex_boundary True [(''file'', ''hello.txt'', ''hello world'')]
          @ CRLF @ ''--'' @ ex_boundary @ ''--'' @ CRLF"
    using t3 by (simp only: u vals ne b ex_values_bytes) simp
  then have 2: "ReadAll (Body (snd (handleMultipart ex_env ex_setx ex_rw ex_req_mp))) = ex_rebuilt_body"
    by (simp add: ex_rebuilt_body_def)
  show ?thesis
    using 1 2 o r' r'' u pl ex_parse_mp by simp
qed

text \<open>
  The claim as stated fails for a file whose name holds a line feed, as a request can
  give it through the extended \<open>filename*\<close> parameter: the rebuild succeeds, and the
  file part carries \<open>a%0Ab.txt\<close>, not the name of the form's file.
\<close>

theorem C4_line_feed_name_counterexample:
  "uploaded_files (range_map (order_files ex_env_nl) (File ex_mform_nl))
       = [(''file'', ''a'' @ [CHR 0x0A] @ ''b.txt'', ''hello world'')]
   \<and> fst (ParseMultipartForm ex_env_nl 33554432 ex_req_nl) = None
   \<and> fst (handleMultipart ex_env_nl ex_setx ex_rw ex_req_nl) = ex_rw
   \<and> ReadAll (Body (snd (handleMultipart ex_env_nl ex_setx ex_rw ex_req_nl))) =
          ex_values_text
          @ files_text ex_boundary True [(''file'', ''a%0Ab.txt'', ''hello world'')]
          @ CRLF @ ''--'' @ ex_boundary @ ''--'' @ CRLF
   \<and> ReadAll (Body (snd (handleMultipart ex_env_nl ex_setx ex_rw ex_req_nl))) \<noteq>
          ex_values_text
          @ files_text ex_boundary True [(''file'', ''a'' @ [CHR 0x0A] @ ''b.txt'', ''hello world'')]
          @ CRLF @ ''--'' @ ex_boundary @ ''--'' @ CRLF"
proof -
  have p: "ParseMultipartForm ex_env_nl 33554432 ex_req_nl
             = (None, snd (parse_multipart_to ex_mform_nl 33554432 ex_req_nl))"
    and m: "MultipartForm (snd (parse_multipart_to ex_mform_nl 33554432 ex_req_nl)) = Some ex_mform_nl"
    by (simp_all add: ex_env_nl_def ex_env_def parse_multipart_to_def)
  have d: "set (order_files ex_env_nl) = dom (File ex_mform_nl)"
    by (simp add: ex_env_nl_def ex_env_def ex_mform_nl_def)
  have r: "\<forall>fhs \<in> ran (File ex_mform_nl). \<forall>fh \<in> set fhs. readable fh"
    by (simp add: ex_mform_nl_def readable_def nl_fh_def)
  have vals: "range_map (order_values ex_env_nl) (Value (mutated ex_env_nl ex_setx ex_mform_nl))
                = [(''x'', [''1'']), (''b'', [''x''])]"
    by (simp add: ex_env_nl_def ex_env_def ex_setx_def ex_mform_nl_def mutated_def
        applyOpsToValues_def range_map_Nil range_map_Cons)
  have ne: "value_parts [(''x'', [''1'']), (''b'', [''x''])] \<noteq> []"
    by (simp add: value_parts_def)
  have files: "range_map (order_files ex_env_nl) (File ex_mform_nl) = [(''file'', [nl_fh])]"
    by (simp add: ex_env_nl_def ex_env_def ex_mform_nl_def range_map_Nil range_map_Cons)
  have u: "uploaded_files (range_map (order_files ex_env_nl) (File ex_mform_nl))
       = [(''file'', ''a'' @ [CHR 0x0A] @ ''b.txt'', ''hello world'')]"
    by (simp add: files uploaded_files_def file_content_def nl_fh_def)
  have q: "map quoted_names [(''file'', ''a'' @ [CHR 0x0A] @ ''b.txt'', ''hello world'')]
             = [(''file'', ''a%0Ab.txt'', ''hello world'')]"
    by (simp add: quoted_names_def escapeQuotes_def)
  have b: "randomBoundary ex_env_nl = ex_boundary"
    by (simp add: ex_env_nl_def ex_env_def)
  note t = handleMultipart_body_text [OF p m d r, of ex_setx ex_rw]
  have 1: "fst (handleMultipart ex_env_nl ex_setx ex_rw ex_req_nl) = ex_rw"
    using t by simp
  have 2: "ReadAll (Body (snd (handleMultipart ex_env_nl ex_setx ex_rw ex_req_nl))) =
          ex_values_text
          @ files_text ex_boundary True [(''file'', ''a%0Ab.txt'', ''hello world'')]
          @ CRLF @ ''--'' @ ex_boundary @ ''--'' @ CRLF"
    using t by (simp only: u vals ne b ex_values_bytes q) simp
  have 3: "ex_values_text
          @ files_text ex_boundary True [(''file'', ''a%0Ab.txt'', ''hello world'')]
          @ CRLF @ ''--'' @ ex_boundary @ ''--'' @ CRLF
        \<noteq> ex_values_text
          @ files_text ex_boundary True [(''file'', ''a'' @ [CHR 0x0A] @ ''b.txt'', ''hello world'')]
          @ CRLF @ ''--'' @ ex_boundary @ ''--'' @ CRLF"
    by simp
  have 4: "fst (ParseMultipartForm ex_env_nl 33554432 ex_req_nl) = None"
    by (simp add: p)
  from u 4 1 2 3 show ?thesis
    by simp
qed

end
